theory Spec2Isabelle
  imports Complex_Main "HOL-Library.Word"
begin

section \<open>Fixed-size vectors, matrices and rigid transforms\<close>

text \<open>
  The scalar type of the source is a template parameter (\<open>T\<close>, \<open>Scalar\<close>); here it is
  the type variable \<open>'a\<close>, constrained only by the operations a function uses.
  Matrices are stored column by column, as Eigen stores them: \<open>Mat23 c0 c1 c2\<close> is the
  2x3 matrix whose columns are \<open>c0\<close>, \<open>c1\<close>, \<open>c2\<close>.
\<close>

datatype 'a Vec2t = Vec2t 'a 'a

datatype 'a Vec3t = Vec3t 'a 'a 'a

datatype 'a Mat3 = Mat3 "'a Vec3t" "'a Vec3t" "'a Vec3t"

datatype 'a Mat23 = Mat23 "'a Vec2t" "'a Vec2t" "'a Vec2t"

datatype 'a Mat24 = Mat24 "'a Vec2t" "'a Vec2t" "'a Vec2t" "'a Vec2t"

fun vec2_sub :: "'a::minus Vec2t \<Rightarrow> 'a Vec2t \<Rightarrow> 'a Vec2t" where
  "vec2_sub (Vec2t a b) (Vec2t c d) = Vec2t (a - c) (b - d)"

fun vec3_add :: "'a::plus Vec3t \<Rightarrow> 'a Vec3t \<Rightarrow> 'a Vec3t" where
  "vec3_add (Vec3t a b c) (Vec3t x y z) = Vec3t (a + x) (b + y) (c + z)"

fun scalar_mul_vec3 :: "'a::times \<Rightarrow> 'a Vec3t \<Rightarrow> 'a Vec3t" where
  "scalar_mul_vec3 k (Vec3t x y z) = Vec3t (k * x) (k * y) (k * z)"

fun mat3_mul_vec3 :: "'a::{plus,times} Mat3 \<Rightarrow> 'a Vec3t \<Rightarrow> 'a Vec3t" where
  "mat3_mul_vec3 (Mat3 (Vec3t a0 b0 c0) (Vec3t a1 b1 c1) (Vec3t a2 b2 c2)) (Vec3t x y z) =
     Vec3t (a0 * x + a1 * y + a2 * z) (b0 * x + b1 * y + b2 * z) (c0 * x + c1 * y + c2 * z)"

fun mat23_mul_vec3 :: "'a::{plus,times} Mat23 \<Rightarrow> 'a Vec3t \<Rightarrow> 'a Vec2t" where
  "mat23_mul_vec3 (Mat23 (Vec2t a0 b0) (Vec2t a1 b1) (Vec2t a2 b2)) (Vec3t x y z) =
     Vec2t (a0 * x + a1 * y + a2 * z) (b0 * x + b1 * y + b2 * z)"

fun mat23_mul_mat3 :: "'a::{plus,times} Mat23 \<Rightarrow> 'a Mat3 \<Rightarrow> 'a Mat23" where
  "mat23_mul_mat3 J (Mat3 c0 c1 c2) =
     Mat23 (mat23_mul_vec3 J c0) (mat23_mul_vec3 J c1) (mat23_mul_vec3 J c2)"

text \<open>Eigen's block accessors on a 2x4 matrix, for reading and for assignment.\<close>

fun topLeftCorner_2_3 :: "'a Mat24 \<Rightarrow> 'a Mat23" where
  "topLeftCorner_2_3 (Mat24 c0 c1 c2 c3) = Mat23 c0 c1 c2"

fun col_3 :: "'a Mat24 \<Rightarrow> 'a Vec2t" where
  "col_3 (Mat24 c0 c1 c2 c3) = c3"

fun assign_topLeftCorner_2_3 :: "'a Mat24 \<Rightarrow> 'a Mat23 \<Rightarrow> 'a Mat24" where
  "assign_topLeftCorner_2_3 (Mat24 c0 c1 c2 c3) (Mat23 d0 d1 d2) = Mat24 d0 d1 d2 c3"

fun assign_col_3 :: "'a Mat24 \<Rightarrow> 'a Vec2t \<Rightarrow> 'a Mat24" where
  "assign_col_3 (Mat24 c0 c1 c2 c3) v = Mat24 c0 c1 c2 v"

text \<open>
  \<open>Sophus::SE3Group\<close> belongs to an external library. A rigid transform is represented
  by what its accessors \<open>rotationMatrix()\<close> and \<open>translation()\<close> return, and it acts on
  a point \<open>p\<close> as \<open>R * p + t\<close>.
\<close>

record 'a SE3 =
  rotationMatrix :: "'a Mat3"
  translation :: "'a Vec3t"

definition se3_mul_point :: "'a::{plus,times} SE3 \<Rightarrow> 'a Vec3t \<Rightarrow> 'a Vec3t" where
  "se3_mul_point T p = vec3_add (mat3_mul_vec3 (rotationMatrix T) p) (translation T)"

definition SE3_identity :: "'a::{zero,one} SE3" where
  "SE3_identity =
     \<lparr>rotationMatrix = Mat3 (Vec3t 1 0 0) (Vec3t 0 1 0) (Vec3t 0 0 1),
      translation = Vec3t 0 0 0\<rparr>"

section \<open>calibu: the camera interface and the rig\<close>

text \<open>
  \<open>Camera<Derived, Scalar>\<close> forwards to the implementation functions of its derived
  class (the recurring-template pattern). The derived class is not part of the file, so
  its three functions are the fields of a record that every method takes.
\<close>

record 'a Derived =
  UnprojectImpl :: "'a Vec2t \<Rightarrow> 'a Vec3t"
  ProjectImpl :: "'a Vec3t \<Rightarrow> 'a Vec2t"
  dProject_drayImpl :: "'a Vec3t \<Rightarrow> 'a Mat23"

definition Unproject :: "'a Derived \<Rightarrow> 'a Vec2t \<Rightarrow> 'a Vec3t" where
  "Unproject d pix = UnprojectImpl d pix"

definition Project :: "'a Derived \<Rightarrow> 'a Vec3t \<Rightarrow> 'a Vec2t" where
  "Project d ray = ProjectImpl d ray"

definition dProject_dray :: "'a Derived \<Rightarrow> 'a Vec3t \<Rightarrow> 'a Mat23" where
  "dProject_dray d ray = dProject_drayImpl d ray"

definition Transfer3d ::
  "'a::{plus,times} Derived \<Rightarrow> 'a SE3 \<Rightarrow> 'a Vec3t \<Rightarrow> 'a \<Rightarrow> 'a Vec2t" where
  "Transfer3d d t_ba ray rho =
     (let ray_dehomogenized =
            vec3_add (mat3_mul_vec3 (rotationMatrix t_ba) ray)
                     (scalar_mul_vec3 rho (translation t_ba))
      in Project d ray_dehomogenized)"

text \<open>
  The result matrix \<open>dtransfer3d_dray\<close> is declared without an initialiser; its contents
  before the two assignments are the argument \<open>uninitialized\<close>.
\<close>

definition dTransfer3d_dray ::
  "'a::{plus,times} Derived \<Rightarrow> 'a Mat24 \<Rightarrow> 'a SE3 \<Rightarrow> 'a Vec3t \<Rightarrow> 'a \<Rightarrow> 'a Mat24" where
  "dTransfer3d_dray d uninitialized t_ba ray rho =
     (let rot_matrix = rotationMatrix t_ba;
          ray_dehomogenized =
            vec3_add (mat3_mul_vec3 rot_matrix ray) (scalar_mul_vec3 rho (translation t_ba));
          dproject_dray = dProject_dray d ray_dehomogenized;
          dtransfer3d_dray = uninitialized;
          dtransfer3d_dray =
            assign_topLeftCorner_2_3 dtransfer3d_dray (mat23_mul_mat3 dproject_dray rot_matrix);
          dtransfer3d_dray =
            assign_col_3 dtransfer3d_dray (mat23_mul_vec3 dproject_dray (translation t_ba))
      in dtransfer3d_dray)"

text \<open>
  A rig holds two parallel vectors, \<open>cameras_\<close> and \<open>t_wc_\<close> in the source (a name
  cannot end in an underscore here, so the fields are prefixed instead). A camera is
  referred to by a pointer; the shared pointer \<open>CameraInterface::Ptr\<close> wraps the address
  of the camera it owns.
\<close>

type_synonym addr = nat

datatype Ptr = Ptr addr

record 'a Rig =
  Rig_cameras :: "Ptr list"
  Rig_t_wc :: "'a SE3 list"

definition Rig_new :: "'a Rig" where
  "Rig_new = \<lparr>Rig_cameras = [], Rig_t_wc = []\<rparr>"

definition Rig_AddCamera :: "Ptr \<Rightarrow> 'a SE3 \<Rightarrow> 'a Rig \<Rightarrow> 'a Rig" where
  "Rig_AddCamera cam t_wc r =
     (let r = r\<lparr>Rig_cameras := Rig_cameras r @ [cam]\<rparr>;
          r = r\<lparr>Rig_t_wc := Rig_t_wc r @ [t_wc]\<rparr>
      in r)"

definition Rig_AddCamera_raw :: "addr \<Rightarrow> 'a SE3 \<Rightarrow> 'a Rig \<Rightarrow> 'a Rig" where
  "Rig_AddCamera_raw cam t_wc r =
     (let r = r\<lparr>Rig_cameras := Rig_cameras r @ [Ptr cam]\<rparr>;
          r = r\<lparr>Rig_t_wc := Rig_t_wc r @ [t_wc]\<rparr>
      in r)"

text \<open>A call of either overload, and a sequence of calls applied to a rig in order.\<close>

datatype 'a Rig_call = AddCamera_Ptr Ptr "'a SE3" | AddCamera_raw addr "'a SE3"

fun Rig_apply :: "'a Rig_call \<Rightarrow> 'a Rig \<Rightarrow> 'a Rig" where
  "Rig_apply (AddCamera_Ptr cam t_wc) r = Rig_AddCamera cam t_wc r"
| "Rig_apply (AddCamera_raw cam t_wc) r = Rig_AddCamera_raw cam t_wc r"

fun Rig_calls :: "'a Rig_call list \<Rightarrow> 'a Rig \<Rightarrow> 'a Rig" where
  "Rig_calls [] r = r"
| "Rig_calls (c # cs) r = Rig_calls cs (Rig_apply c r)"

text \<open>The camera pointer and the mounting pose a call was given.\<close>

fun call_camera :: "'a Rig_call \<Rightarrow> Ptr" where
  "call_camera (AddCamera_Ptr cam t_wc) = cam"
| "call_camera (AddCamera_raw cam t_wc) = Ptr cam"

fun call_pose :: "'a Rig_call \<Rightarrow> 'a SE3" where
  "call_pose (AddCamera_Ptr cam t_wc) = t_wc"
| "call_pose (AddCamera_raw cam t_wc) = t_wc"

section \<open>fiducials: the reprojection cost\<close>

text \<open>
  \<open>Project<T>\<close> and \<open>ProjModel::Map<T>\<close> come from \<open>CameraModel.h\<close>, which is not part
  of the file: they are the two fields of a record that \<open>Evaluate\<close> takes. The camera
  parameters \<open>camparam\<close> are a vector of scalars.
\<close>

record 'a Projection =
  fiducials_Project :: "'a Vec3t \<Rightarrow> 'a Vec2t"
  ProjModel_Map :: "'a Vec2t \<Rightarrow> 'a list \<Rightarrow> 'a Vec2t"

text \<open>
  A parameter block is named by the pointer the engine hands to the solver: the
  \<open>data()\<close> of an \<open>SE3d\<close> object, or the \<open>T_ck.data()\<close> or the \<open>camera.data()\<close> of a
  \<open>CameraAndPose\<close> object, each given by the address of the object.
\<close>

datatype block = SE3_data addr | T_ck_data addr | camera_data addr

text \<open>
  Modelled from the spec: \<open>CostFunctionAndParams\<close> (\<open>CostFunctionAndParams.h\<close> is not
  part of the file), the base of every cost. It holds what the engine hands to
  \<open>AddResidualBlock\<close>: \<open>Params()\<close>, the parameter-block addresses the residual is bound to,
  and \<open>Loss()\<close>, a pointer to a loss function, null when there is none.
\<close>

record CostFunctionAndParams =
  Params :: "block list"
  Loss :: "addr option"

record 'a ReprojectionCost = CostFunctionAndParams +
  m_Pw :: "'a Vec3t"
  m_pc :: "'a Vec2t"

text \<open>
  \<open>Evaluate\<close> reads three parameter blocks: \<open>parameters[0]\<close> and \<open>parameters[1]\<close> as
  rigid transforms, \<open>parameters[2]\<close> as the camera parameters. It writes the residual
  and returns \<open>true\<close>. The landmark and the pixel are cast to the scalar type \<open>T\<close>; with
  one scalar type the cast is the identity.
\<close>

definition Evaluate ::
  "'a::{plus,minus,times} Projection \<Rightarrow> 'a ReprojectionCost \<Rightarrow>
     'a SE3 \<times> 'a SE3 \<times> 'a list \<Rightarrow> bool \<times> 'a Vec2t" where
  "Evaluate pm cost parameters =
     (case parameters of (T_kw, T_ck, camparam) \<Rightarrow>
        let Pc = se3_mul_point T_ck (se3_mul_point T_kw (m_Pw cost));
            pc = ProjModel_Map pm (fiducials_Project pm Pc) camparam;
            r = vec2_sub pc (m_pc cost)
        in (True, r))"

section \<open>fiducials: the solver boundary\<close>

text \<open>
  Ceres is an external library. A problem records the calls made on it; the solver is a
  parameter of the engine: a function from the solver options, the problem and the
  memory to the memory it leaves and either the object it threw or its summary. The
  only local parameterization the engine passes is its member \<open>m_LocalParamSe3\<close>.
\<close>

datatype LocalParameterization = LocalParamSe3

datatype Ownership = DO_NOT_TAKE_OWNERSHIP | TAKE_OWNERSHIP

record ProblemOptions =
  cost_function_ownership :: Ownership
  local_parameterization_ownership :: Ownership
  loss_function_ownership :: Ownership

record SolverOptions =
  num_threads :: int
  update_state_every_iteration :: bool
  max_num_iterations :: int

record 'a Problem =
  options :: ProblemOptions
  parameter_blocks :: "(block \<times> nat \<times> LocalParameterization option) list"
  constant_blocks :: "block list"
  residual_blocks :: "('a ReprojectionCost \<times> addr option \<times> block list) list"

definition Problem_new :: "ProblemOptions \<Rightarrow> 'a Problem" where
  "Problem_new opts =
     \<lparr>options = opts, parameter_blocks = [], constant_blocks = [], residual_blocks = []\<rparr>"

definition AddParameterBlock ::
  "block \<Rightarrow> nat \<Rightarrow> LocalParameterization option \<Rightarrow> 'a Problem \<Rightarrow> 'a Problem" where
  "AddParameterBlock values n local_parameterization problem =
     problem\<lparr>parameter_blocks :=
       parameter_blocks problem @ [(values, n, local_parameterization)]\<rparr>"

definition SetParameterBlockConstant :: "block \<Rightarrow> 'a Problem \<Rightarrow> 'a Problem" where
  "SetParameterBlockConstant values problem =
     problem\<lparr>constant_blocks := constant_blocks problem @ [values]\<rparr>"

definition AddResidualBlock ::
  "'a ReprojectionCost \<Rightarrow> addr option \<Rightarrow> block list \<Rightarrow> 'a Problem \<Rightarrow> 'a Problem" where
  "AddResidualBlock cost loss blocks problem =
     problem\<lparr>residual_blocks := residual_blocks problem @ [(cost, loss, blocks)]\<rparr>"

text \<open>Every residual block of the engine is a \<open>ReprojectionCost\<close>, with two residuals.\<close>

definition NumResiduals :: "'a Problem \<Rightarrow> nat" where
  "NumResiduals problem = 2 * length (residual_blocks problem)"

record 'a Summary =
  final_cost :: 'a
  num_residuals :: int

text \<open>
  What a throw expression raises: an object of \<open>std::exception\<close> or of a class derived
  from it (with the text its \<open>what()\<close> gives), or an object of another type.
\<close>

datatype thrown = std_exception string | other_object

section \<open>fiducials: the calibrator\<close>

text \<open>
  Modelled from the spec: \<open>CameraModel<ProjModel>\<close> (\<open>CameraModel.h\<close> is not part of the
  file) holds the intrinsic parameters, a vector of scalars whose length depends on the
  projection model; \<open>camera.data()\<close> points to it. A camera model is that vector.
\<close>

record 'a CameraAndPose =
  camera :: "'a list"
  T_ck :: "'a SE3"

text \<open>
  The objects the engine creates with \<open>new\<close>, and the memory they live in. A solver
  works on the memory: it returns the memory it leaves behind, also when it throws.
\<close>

datatype 'a object = SE3d "'a SE3" | CameraAndPose_object "'a CameraAndPose"

type_synonym 'a memory = "addr \<Rightarrow> 'a object option"

type_synonym 'a solver =
  "SolverOptions \<Rightarrow> 'a Problem \<Rightarrow> 'a memory \<Rightarrow> 'a memory \<times> (thrown + 'a Summary)"

text \<open>
  The C++ \<open>int\<close> is a 32-bit two's complement integer, read with \<open>sint\<close>. The vectors of
  owning pointers are lists of addresses into \<open>heap\<close>; \<open>next_addr\<close> is the address the
  next \<open>new\<close> returns. The mutex is held when \<open>m_update_mutex\<close> is true.
\<close>

type_synonym cpp_int = "32 word"

record 'a Calibrator =
  heap :: "'a memory"
  next_addr :: addr
  m_update_mutex :: bool
  m_should_run :: bool
  m_running :: bool
  m_T_kw :: "addr list"
  m_camera :: "addr list"
  m_costs :: "'a ReprojectionCost list"
  m_prob_options :: ProblemOptions
  m_solver_options :: SolverOptions

text \<open>
  How a call can fail to return normally: it waits for the mutex, it has undefined
  behaviour, or an exception leaves it.
\<close>

datatype fault = Blocked | UndefinedBehaviour | Uncaught thrown

text \<open>
  The constructor sets the options only: \<open>m_should_run\<close> and \<open>m_running\<close> keep whatever
  values they have, given here as arguments.
\<close>

definition Calibrator_new :: "bool \<Rightarrow> bool \<Rightarrow> 'a Calibrator" where
  "Calibrator_new should_run running =
     \<lparr>heap = (\<lambda>a. None), next_addr = 0, m_update_mutex = False,
      m_should_run = should_run, m_running = running,
      m_T_kw = [], m_camera = [], m_costs = [],
      m_prob_options =
        \<lparr>cost_function_ownership = DO_NOT_TAKE_OWNERSHIP,
         local_parameterization_ownership = DO_NOT_TAKE_OWNERSHIP,
         loss_function_ownership = DO_NOT_TAKE_OWNERSHIP\<rparr>,
      m_solver_options =
        \<lparr>num_threads = 4, update_state_every_iteration = True, max_num_iterations = 100\<rparr>\<rparr>"

text \<open>An object is created at a fresh address (\<open>new\<close>, and a copy returned by value).\<close>

definition new_object :: "'a object \<Rightarrow> 'a Calibrator \<Rightarrow> addr \<times> 'a Calibrator" where
  "new_object v s =
     (next_addr s, s\<lparr>heap := (heap s)(next_addr s \<mapsto> v), next_addr := Suc (next_addr s)\<rparr>)"

definition assign_object :: "addr \<Rightarrow> 'a object \<Rightarrow> 'a Calibrator \<Rightarrow> 'a Calibrator" where
  "assign_object p v s = s\<lparr>heap := (heap s)(p \<mapsto> v)\<rparr>"

definition Clear :: "'a Calibrator \<Rightarrow> 'a Calibrator" where
  "Clear s =
     s\<lparr>heap := (\<lambda>a. if a \<in> set (m_T_kw s) \<union> set (m_camera s) then None else heap s a),
       m_T_kw := [], m_camera := [], m_costs := []\<rparr>"

definition AddCamera :: "'a list \<Rightarrow> 'a SE3 \<Rightarrow> 'a Calibrator \<Rightarrow> cpp_int \<times> 'a Calibrator" where
  "AddCamera cam T_ck' s =
     (let id = (word_of_nat (length (m_camera s)) :: cpp_int);
          (p, s) = new_object (CameraAndPose_object \<lparr>camera = cam, T_ck = T_ck'\<rparr>) s;
          s = s\<lparr>m_camera := m_camera s @ [p]\<rparr>
      in (id, s))"

definition AddFrame :: "'a SE3 \<Rightarrow> 'a Calibrator \<Rightarrow> cpp_int \<times> 'a Calibrator" where
  "AddFrame T_kw s =
     (let id = (word_of_nat (length (m_T_kw s)) :: cpp_int);
          (p, s) = new_object (SE3d T_kw) s;
          s = s\<lparr>m_T_kw := m_T_kw s @ [p]\<rparr>
      in (id, s))"

definition lock :: "'a Calibrator \<Rightarrow> fault + 'a Calibrator" where
  "lock s = (if m_update_mutex s then Inl Blocked else Inr (s\<lparr>m_update_mutex := True\<rparr>))"

definition unlock :: "'a Calibrator \<Rightarrow> 'a Calibrator" where
  "unlock s = s\<lparr>m_update_mutex := False\<rparr>"

text \<open>
  \<open>v[i]\<close> with an \<open>int\<close> index: the index is converted to \<open>size_t\<close>, so a negative one
  is past the end of every vector. Outside the range the behaviour is undefined.
\<close>

definition at_int :: "addr list \<Rightarrow> cpp_int \<Rightarrow> fault + addr" where
  "at_int v i =
     (if 0 \<le> sint i \<and> nat (sint i) < length v then Inr (v ! nat (sint i))
      else Inl UndefinedBehaviour)"

text \<open>The part of \<open>AddObservation\<close> between \<open>lock()\<close> and \<open>unlock()\<close>.\<close>

definition AddObservation_locked ::
  "cpp_int \<Rightarrow> cpp_int \<Rightarrow> 'a Vec3t \<Rightarrow> 'a Vec2t \<Rightarrow> 'a Calibrator \<Rightarrow> fault + 'a Calibrator" where
  "AddObservation_locked frame camera' P_c p_c s =
     (case at_int (m_camera s) camera' of
        Inl f \<Rightarrow> Inl f
      | Inr cp \<Rightarrow>
          (case at_int (m_T_kw s) frame of
             Inl f \<Rightarrow> Inl f
           | Inr T_kw \<Rightarrow>
               let cost = \<lparr>Params = [SE3_data T_kw, T_ck_data cp, camera_data cp],
                           Loss = None, m_Pw = P_c, m_pc = p_c\<rparr>
               in Inr (s\<lparr>m_costs := m_costs s @ [cost]\<rparr>)))"

definition AddObservation ::
  "cpp_int \<Rightarrow> cpp_int \<Rightarrow> 'a Vec3t \<Rightarrow> 'a Vec2t \<Rightarrow> 'a Calibrator \<Rightarrow> fault + 'a Calibrator" where
  "AddObservation frame camera' P_c p_c s =
     (case lock s of
        Inl f \<Rightarrow> Inl f
      | Inr s1 \<Rightarrow>
          (case AddObservation_locked frame camera' P_c p_c s1 of
             Inl f \<Rightarrow> Inl f
           | Inr s2 \<Rightarrow> Inr (unlock s2)))"

definition NumFrames :: "'a Calibrator \<Rightarrow> nat" where
  "NumFrames s = length (m_T_kw s)"

definition NumCameras :: "'a Calibrator \<Rightarrow> nat" where
  "NumCameras s = length (m_camera s)"

text \<open>\<open>GetFrame\<close> returns a reference: the address of the stored pose.\<close>

definition GetFrame :: "'a Calibrator \<Rightarrow> nat \<Rightarrow> fault + addr" where
  "GetFrame s i = (if i < length (m_T_kw s) then Inr (m_T_kw s ! i) else Inl UndefinedBehaviour)"

text \<open>
  \<open>GetCamera\<close> returns by value: the result is a new object, a copy of the stored one,
  at an address of its own.
\<close>

definition GetCamera :: "'a Calibrator \<Rightarrow> nat \<Rightarrow> fault + addr \<times> 'a Calibrator" where
  "GetCamera s i =
     (if i < length (m_camera s) then
        (case heap s (m_camera s ! i) of
           Some (CameraAndPose_object cp) \<Rightarrow> Inr (new_object (CameraAndPose_object cp) s)
         | _ \<Rightarrow> Inl UndefinedBehaviour)
      else Inl UndefinedBehaviour)"

section \<open>fiducials: the background loop\<close>

text \<open>The three loops of \<open>SolveThread\<close> that fill a fresh problem, in the source's order.\<close>

definition add_camera_blocks :: "'a Calibrator \<Rightarrow> 'a Problem \<Rightarrow> 'a Problem" where
  "add_camera_blocks s problem =
     fold (\<lambda>c problem.
             let problem =
                   AddParameterBlock (T_ck_data (m_camera s ! c)) 7 (Some LocalParamSe3) problem
             in if c = 0 then SetParameterBlockConstant (T_ck_data (m_camera s ! c)) problem
                else problem)
          [0..<length (m_camera s)] problem"

definition add_frame_blocks :: "'a Calibrator \<Rightarrow> 'a Problem \<Rightarrow> 'a Problem" where
  "add_frame_blocks s problem =
     fold (\<lambda>p problem.
             AddParameterBlock (SE3_data (m_T_kw s ! p)) 7 (Some LocalParamSe3) problem)
          [0..<length (m_T_kw s)] problem"

definition add_costs :: "'a Calibrator \<Rightarrow> 'a Problem \<Rightarrow> 'a Problem" where
  "add_costs s problem =
     fold (\<lambda>c problem.
             let cost = m_costs s ! c
             in AddResidualBlock cost (Loss cost) (Params cost) problem)
          [0..<length (m_costs s)] problem"

definition BuildProblem :: "'a Calibrator \<Rightarrow> 'a Problem" where
  "BuildProblem s =
     add_costs s (add_frame_blocks s (add_camera_blocks s (Problem_new (m_prob_options s))))"

text \<open>
  What an iteration does outside the engine: the call of \<open>ceres::Solve\<close> on a problem,
  and the lines written to \<open>std::cout\<close> and \<open>std::cerr\<close>. The last line of a successful
  solve prints the number of frames, \<open>summary.num_residuals\<close> and the mean squared
  error \<open>summary.final_cost / summary.num_residuals\<close>; the event keeps the three values
  it is computed from.
\<close>

datatype 'a event =
    Solve "'a Problem"
  | cout_BriefReport "'a Summary"
  | cout_Frames_Observations_mse nat int 'a
  | cerr_what string

text \<open>
  The handler \<open>catch(std::exception e)\<close> takes its object by value: \<open>e\<close> is a copy of the
  \<open>std::exception\<close> part of what was thrown, and \<open>e.what()\<close> is the text of the base
  class.
\<close>

definition std_exception_what :: string where
  "std_exception_what = ''std::exception''"

text \<open>One run of the loop's body: build the problem under the mutex, then solve.\<close>

definition SolveThread_body ::
  "'a solver \<Rightarrow> 'a Calibrator \<Rightarrow> 'a event list \<times> (fault + 'a Calibrator)" where
  "SolveThread_body solver s =
     (case lock s of
        Inl f \<Rightarrow> ([], Inl f)
      | Inr s1 \<Rightarrow>
          let problem = BuildProblem s1;
              s2 = unlock s1
          in if NumResiduals problem > 0 then
               (case solver (m_solver_options s2) problem (heap s2) of
                  (h, Inr summary) \<Rightarrow>
                    ([Solve problem, cout_BriefReport summary,
                      cout_Frames_Observations_mse (length (m_T_kw s2))
                        (num_residuals summary) (final_cost summary)],
                     Inr (s2\<lparr>heap := h\<rparr>))
                | (h, Inl (std_exception w)) \<Rightarrow>
                    ([Solve problem, cerr_what std_exception_what], Inr (s2\<lparr>heap := h\<rparr>))
                | (h, Inl other_object) \<Rightarrow>
                    ([Solve problem], Inl (Uncaught other_object)))
             else ([], Inr s2))"

text \<open>
  The calls other threads make on the engine while the loop runs. Assigning through
  the reference \<open>GetFrame(i)\<close> returns writes the stored pose; \<open>Stop\<close> clears
  \<open>m_should_run\<close> and then waits for the thread.
\<close>

datatype 'a call =
    Call_AddCamera "'a list" "'a SE3"
  | Call_AddFrame "'a SE3"
  | Call_AddObservation cpp_int cpp_int "'a Vec3t" "'a Vec2t"
  | Call_GetFrame_assign nat "'a SE3"
  | Call_Stop
  | Call_Clear

fun do_call :: "'a call \<Rightarrow> 'a Calibrator \<Rightarrow> fault + 'a Calibrator" where
  "do_call (Call_AddCamera cam T) s = Inr (snd (AddCamera cam T s))"
| "do_call (Call_AddFrame T) s = Inr (snd (AddFrame T s))"
| "do_call (Call_AddObservation frame cam P_c p_c) s = AddObservation frame cam P_c p_c s"
| "do_call (Call_GetFrame_assign i T) s =
     (case GetFrame s i of Inl f \<Rightarrow> Inl f | Inr r \<Rightarrow> Inr (assign_object r (SE3d T) s))"
| "do_call Call_Stop s = Inr (s\<lparr>m_should_run := False\<rparr>)"
| "do_call Call_Clear s = Inr (Clear s)"

fun do_calls :: "'a call list \<Rightarrow> 'a Calibrator \<Rightarrow> fault + 'a Calibrator" where
  "do_calls [] s = Inr s"
| "do_calls (c # cs) s = (case do_call c s of Inl f \<Rightarrow> Inl f | Inr s1 \<Rightarrow> do_calls cs s1)"

text \<open>
  \<open>while(m_should_run)\<close> with the other threads' calls made explicit: the schedule
  gives, for each evaluation of the loop condition, the calls that complete before it.
  When the schedule is used up the thread is still in the loop.
\<close>

datatype 'a thread = Returned "'a Calibrator" | In_loop "'a Calibrator" | Faulted fault

fun SolveThread_loop ::
  "'a solver \<Rightarrow> 'a call list list \<Rightarrow> 'a Calibrator \<Rightarrow> 'a event list \<times> 'a thread" where
  "SolveThread_loop solver [] s = ([], In_loop s)"
| "SolveThread_loop solver (calls # schedule) s =
     (case do_calls calls s of
        Inl f \<Rightarrow> ([], Faulted f)
      | Inr s1 \<Rightarrow>
          if m_should_run s1 then
            (case SolveThread_body solver s1 of
               (out, Inl f) \<Rightarrow> (out, Faulted f)
             | (out, Inr s2) \<Rightarrow>
                 (case SolveThread_loop solver schedule s2 of
                    (out', t) \<Rightarrow> (out @ out', t)))
          else ([], Returned (s1\<lparr>m_running := False\<rparr>)))"

definition SolveThread ::
  "'a solver \<Rightarrow> 'a call list list \<Rightarrow> 'a Calibrator \<Rightarrow> 'a event list \<times> 'a thread" where
  "SolveThread solver schedule s = SolveThread_loop solver schedule (s\<lparr>m_running := True\<rparr>)"

section \<open>Sequences of AddFrame and AddCamera calls\<close>

text \<open>A sequence of calls is run in order; every call's returned id is kept.\<close>

datatype 'a add_call = add_Frame "'a SE3" | add_Camera "'a list" "'a SE3"

datatype returned_id = Frame_id cpp_int | Camera_id cpp_int

fun add_calls :: "'a add_call list \<Rightarrow> 'a Calibrator \<Rightarrow> returned_id list \<times> 'a Calibrator" where
  "add_calls [] s = ([], s)"
| "add_calls (add_Frame T # cs) s =
     (let (id, s1) = AddFrame T s; (ids, s2) = add_calls cs s1 in (Frame_id id # ids, s2))"
| "add_calls (add_Camera cam T # cs) s =
     (let (id, s1) = AddCamera cam T s; (ids, s2) = add_calls cs s1 in (Camera_id id # ids, s2))"

fun frame_ids :: "returned_id list \<Rightarrow> cpp_int list" where
  "frame_ids [] = []"
| "frame_ids (Frame_id i # rs) = i # frame_ids rs"
| "frame_ids (Camera_id i # rs) = frame_ids rs"

fun camera_ids :: "returned_id list \<Rightarrow> cpp_int list" where
  "camera_ids [] = []"
| "camera_ids (Frame_id i # rs) = camera_ids rs"
| "camera_ids (Camera_id i # rs) = i # camera_ids rs"

fun AddFrame_calls :: "'a add_call list \<Rightarrow> nat" where
  "AddFrame_calls [] = 0"
| "AddFrame_calls (add_Frame T # cs) = Suc (AddFrame_calls cs)"
| "AddFrame_calls (add_Camera cam T # cs) = AddFrame_calls cs"

fun AddCamera_calls :: "'a add_call list \<Rightarrow> nat" where
  "AddCamera_calls [] = 0"
| "AddCamera_calls (add_Frame T # cs) = AddCamera_calls cs"
| "AddCamera_calls (add_Camera cam T # cs) = Suc (AddCamera_calls cs)"

section \<open>Properties of states, memories and solvers\<close>

text \<open>What a parameter block holds in a memory: a pose or a vector of intrinsics.\<close>

datatype 'a block_value = Pose "'a SE3" | Intrinsics "'a list"

fun read_block :: "'a memory \<Rightarrow> block \<Rightarrow> 'a block_value option" where
  "read_block h (SE3_data p) =
     (case h p of Some (SE3d T) \<Rightarrow> Some (Pose T) | _ \<Rightarrow> None)"
| "read_block h (T_ck_data p) =
     (case h p of Some (CameraAndPose_object cp) \<Rightarrow> Some (Pose (T_ck cp)) | _ \<Rightarrow> None)"
| "read_block h (camera_data p) =
     (case h p of Some (CameraAndPose_object cp) \<Rightarrow> Some (Intrinsics (camera cp)) | _ \<Rightarrow> None)"

text \<open>
  The solver's side of \<open>SetParameterBlockConstant\<close>: a solve leaves every block that
  the problem marks constant as it was.
\<close>

definition keeps_constant_blocks :: "'a solver \<Rightarrow> bool" where
  "keeps_constant_blocks solver =
     (\<forall>opts problem h. \<forall>b\<in>set (constant_blocks problem).
        read_block (fst (solver opts problem h)) b = read_block h b)"

text \<open>
  Every pointer the two vectors own came from \<open>new\<close>: it is below \<open>next_addr\<close>, and no
  two of them are equal.
\<close>

definition allocated :: "'a Calibrator \<Rightarrow> bool" where
  "allocated s =
     ((\<forall>p\<in>set (m_T_kw s) \<union> set (m_camera s). p < next_addr s)
      \<and> distinct (m_T_kw s @ m_camera s))"

definition no_Clear :: "'a call list list \<Rightarrow> bool" where
  "no_Clear schedule = (\<forall>calls\<in>set schedule. Call_Clear \<notin> set calls)"

text \<open>
  The invariant behind the fixed gauge: the first camera is the object at \<open>a\<close>, and its
  extrinsic block reads \<open>v\<close>.
\<close>

definition gauge :: "addr \<Rightarrow> 'a block_value option \<Rightarrow> 'a Calibrator \<Rightarrow> bool" where
  "gauge a v s =
     (m_camera s \<noteq> [] \<and> m_camera s ! 0 = a \<and> allocated s
      \<and> read_block (heap s) (T_ck_data a) = v)"

section \<open>Scalars with infinities\<close>

text \<open>
  The values a \<open>double\<close> takes, rounding aside: the finite reals, the two infinities
  and NaN. On the infinities and NaN the arithmetic is that of IEEE 754; on finite values
  it is exact. There is one zero, and it counts as positive.
\<close>

datatype xreal = Finite real | PInf | MInf | NaN

fun is_finite :: "xreal \<Rightarrow> bool" where
  "is_finite (Finite a) = True"
| "is_finite x = False"

fun finite_pixel :: "xreal Vec2t \<Rightarrow> bool" where
  "finite_pixel (Vec2t u v) = (is_finite u \<and> is_finite v)"

instantiation xreal :: "{zero,one,plus,uminus,minus,times,inverse}"
begin

definition zero_xreal :: xreal where
  "zero_xreal = Finite 0"

definition one_xreal :: xreal where
  "one_xreal = Finite 1"

fun plus_xreal :: "xreal \<Rightarrow> xreal \<Rightarrow> xreal" where
  "plus_xreal (Finite a) (Finite b) = Finite (a + b)"
| "plus_xreal NaN y = NaN"
| "plus_xreal x NaN = NaN"
| "plus_xreal PInf MInf = NaN"
| "plus_xreal MInf PInf = NaN"
| "plus_xreal PInf y = PInf"
| "plus_xreal x PInf = PInf"
| "plus_xreal MInf y = MInf"
| "plus_xreal x MInf = MInf"

fun uminus_xreal :: "xreal \<Rightarrow> xreal" where
  "uminus_xreal (Finite a) = Finite (- a)"
| "uminus_xreal PInf = MInf"
| "uminus_xreal MInf = PInf"
| "uminus_xreal NaN = NaN"

definition minus_xreal :: "xreal \<Rightarrow> xreal \<Rightarrow> xreal" where
  "minus_xreal x y = x + (- y)"

fun times_xreal :: "xreal \<Rightarrow> xreal \<Rightarrow> xreal" where
  "times_xreal (Finite a) (Finite b) = Finite (a * b)"
| "times_xreal NaN y = NaN"
| "times_xreal x NaN = NaN"
| "times_xreal (Finite a) PInf = (if a = 0 then NaN else if 0 < a then PInf else MInf)"
| "times_xreal (Finite a) MInf = (if a = 0 then NaN else if 0 < a then MInf else PInf)"
| "times_xreal PInf (Finite b) = (if b = 0 then NaN else if 0 < b then PInf else MInf)"
| "times_xreal MInf (Finite b) = (if b = 0 then NaN else if 0 < b then MInf else PInf)"
| "times_xreal PInf PInf = PInf"
| "times_xreal PInf MInf = MInf"
| "times_xreal MInf PInf = MInf"
| "times_xreal MInf MInf = PInf"

fun divide_xreal :: "xreal \<Rightarrow> xreal \<Rightarrow> xreal" where
  "divide_xreal (Finite a) (Finite b) =
     (if b = 0 then (if a = 0 then NaN else if 0 < a then PInf else MInf)
      else Finite (a / b))"
| "divide_xreal NaN y = NaN"
| "divide_xreal x NaN = NaN"
| "divide_xreal (Finite a) PInf = Finite 0"
| "divide_xreal (Finite a) MInf = Finite 0"
| "divide_xreal PInf (Finite b) = (if 0 \<le> b then PInf else MInf)"
| "divide_xreal MInf (Finite b) = (if 0 \<le> b then MInf else PInf)"
| "divide_xreal PInf PInf = NaN"
| "divide_xreal PInf MInf = NaN"
| "divide_xreal MInf PInf = NaN"
| "divide_xreal MInf MInf = NaN"

fun inverse_xreal :: "xreal \<Rightarrow> xreal" where
  "inverse_xreal (Finite b) = (if b = 0 then PInf else Finite (1 / b))"
| "inverse_xreal PInf = Finite 0"
| "inverse_xreal MInf = Finite 0"
| "inverse_xreal NaN = NaN"

instance ..

end

section \<open>Example values\<close>

text \<open>
  A pinhole model: perspective division, then focal lengths and principal point
  \<open>[fu, fv, u0, v0]\<close>.
\<close>

definition pinhole :: "xreal Projection" where
  "pinhole =
     \<lparr>fiducials_Project = (\<lambda>P. case P of Vec3t x y z \<Rightarrow> Vec2t (x / z) (y / z)),
      ProjModel_Map = (\<lambda>p ps. case p of Vec2t u v \<Rightarrow>
                         Vec2t (ps ! 0 * u + ps ! 2) (ps ! 1 * v + ps ! 3))\<rparr>"

definition example_T_kw :: "real SE3" where
  "example_T_kw = SE3_identity\<lparr>translation := Vec3t 0 0 2\<rparr>"

text \<open>
  Two observations: a landmark in front of the camera with the pixel it projects to,
  and a landmark at depth zero with a pixel at infinity.
\<close>

definition example_cost :: "xreal ReprojectionCost" where
  "example_cost =
     \<lparr>Params = [], Loss = None, m_Pw = Vec3t (Finite 1) (Finite 2) (Finite 2),
      m_pc = Vec2t (Finite 2) (Finite 2)\<rparr>"

definition cost_at_infinity :: "xreal ReprojectionCost" where
  "cost_at_infinity =
     \<lparr>Params = [], Loss = None, m_Pw = Vec3t (Finite 1) (Finite 1) (Finite 0),
      m_pc = Vec2t PInf PInf\<rparr>"

text \<open>
  An engine with one camera, one frame and one observation, built by the public calls
  on a new engine whose \<open>m_should_run\<close> is set.
\<close>

definition example_calls :: "real call list" where
  "example_calls =
     [Call_AddCamera [4, 2, 1, 1] SE3_identity,
      Call_AddFrame example_T_kw,
      Call_AddObservation 0 0 (Vec3t 1 2 2) (Vec2t 2 2)]"

definition example_engine :: "real Calibrator" where
  "example_engine =
     (case do_calls example_calls (Calibrator_new True False) of
        Inr s \<Rightarrow> s
      | Inl f \<Rightarrow> Calibrator_new True False)"

text \<open>
  Three solvers: one that throws the given object at once, one that changes nothing and
  reports a summary, and one that resets every registered frame pose that is not
  constant to the identity.
\<close>

definition throwing_solver :: "thrown \<Rightarrow> 'a solver" where
  "throwing_solver e opts problem h = (h, Inl e)"

definition idle_solver :: "real solver" where
  "idle_solver opts problem h =
     (h, Inr \<lparr>final_cost = 0, num_residuals = int (NumResiduals problem)\<rparr>)"

definition reset_frames_solver :: "real solver" where
  "reset_frames_solver opts problem h =
     ((\<lambda>p. case h p of
              Some (SE3d T) \<Rightarrow>
                if SE3_data p \<in> fst ` set (parameter_blocks problem)
                   \<and> SE3_data p \<notin> set (constant_blocks problem)
                then Some (SE3d SE3_identity) else Some (SE3d T)
            | other \<Rightarrow> other),
      Inr \<lparr>final_cost = 0, num_residuals = int (NumResiduals problem)\<rparr>)"

section \<open>Results\<close>

text \<open>
  C7. \<open>Transfer3d\<close> projects the ray rotated into frame B plus the inverse depth times
  the translation: \<open>Project (R * ray + rho * t)\<close>, with the camera's own projection.
\<close>

theorem Transfer3d_projects_transformed_ray:
  "Transfer3d d t_ba ray rho =
     Project d (vec3_add (mat3_mul_vec3 (rotationMatrix t_ba) ray)
                         (scalar_mul_vec3 rho (translation t_ba)))"
  by (simp add: Transfer3d_def)

text \<open>
  C8. Whatever the result matrix held before, the left 2x3 block of the Jacobian
  returned by \<open>dTransfer3d_dray\<close> is \<open>dProject_dray (R * ray + rho * t) * R\<close> and its
  fourth column is \<open>dProject_dray (R * ray + rho * t) * t\<close>.
\<close>

theorem dTransfer3d_dray_blocks:
  "topLeftCorner_2_3 (dTransfer3d_dray d uninitialized t_ba ray rho) =
     mat23_mul_mat3
       (dProject_dray d (vec3_add (mat3_mul_vec3 (rotationMatrix t_ba) ray)
                                  (scalar_mul_vec3 rho (translation t_ba))))
       (rotationMatrix t_ba)
   \<and> col_3 (dTransfer3d_dray d uninitialized t_ba ray rho) =
     mat23_mul_vec3
       (dProject_dray d (vec3_add (mat3_mul_vec3 (rotationMatrix t_ba) ray)
                                  (scalar_mul_vec3 rho (translation t_ba))))
       (translation t_ba)"
proof -
  obtain c0 c1 c2 c3 where u: "uninitialized = Mat24 c0 c1 c2 c3"
    by (cases uninitialized) auto
  define J where "J = dProject_dray d (vec3_add (mat3_mul_vec3 (rotationMatrix t_ba) ray)
                                  (scalar_mul_vec3 rho (translation t_ba)))"
  obtain d0 d1 d2 where m: "mat23_mul_mat3 J (rotationMatrix t_ba) = Mat23 d0 d1 d2"
    by (cases "mat23_mul_mat3 J (rotationMatrix t_ba)") auto
  show ?thesis
    using m by (simp add: dTransfer3d_dray_def Let_def u J_def)
qed

lemma AddFrame_fields:
  "fst (AddFrame T s) = word_of_nat (length (m_T_kw s))"
  "m_T_kw (snd (AddFrame T s)) = m_T_kw s @ [next_addr s]"
  "m_camera (snd (AddFrame T s)) = m_camera s"
  by (simp_all add: AddFrame_def new_object_def Let_def)

lemma AddCamera_fields:
  "fst (AddCamera cam T s) = word_of_nat (length (m_camera s))"
  "m_camera (snd (AddCamera cam T s)) = m_camera s @ [next_addr s]"
  "m_T_kw (snd (AddCamera cam T s)) = m_T_kw s"
  by (simp_all add: AddCamera_def new_object_def Let_def)

lemma add_calls_ids:
  "frame_ids (fst (add_calls cs s)) =
     map word_of_nat [length (m_T_kw s) ..< length (m_T_kw s) + AddFrame_calls cs]
   \<and> camera_ids (fst (add_calls cs s)) =
     map word_of_nat [length (m_camera s) ..< length (m_camera s) + AddCamera_calls cs]
   \<and> length (m_T_kw (snd (add_calls cs s))) = length (m_T_kw s) + AddFrame_calls cs
   \<and> length (m_camera (snd (add_calls cs s))) = length (m_camera s) + AddCamera_calls cs"
proof (induction cs arbitrary: s)
  case Nil
  show ?case by simp
next
  case (Cons c cs)
  show ?case
  proof (cases c)
    case (add_Frame T)
    show ?thesis
      using Cons.IH [of "snd (AddFrame T s)"]
      by (simp add: add_Frame split_beta Let_def AddFrame_fields upt_rec [of "length (m_T_kw s)"])
  next
    case (add_Camera cam T)
    show ?thesis
      using Cons.IH [of "snd (AddCamera cam T s)"]
      by (simp add: add_Camera split_beta Let_def AddCamera_fields upt_rec [of "length (m_camera s)"])
  qed
qed

lemma sint_word_of_nat_small:
  "n < 2 ^ 31 \<Longrightarrow> sint (word_of_nat n :: cpp_int) = int n"
  by (simp add: signed_of_nat signed_take_bit_int_eq_self)

lemma map_sint_ids:
  "n \<le> 2 ^ 31 \<Longrightarrow> map sint (map word_of_nat [0..<n] :: cpp_int list) = map int [0..<n]"
  by (simp add: sint_word_of_nat_small)

lemma Calibrator_new_fields:
  "m_T_kw (Calibrator_new b r) = []" "m_camera (Calibrator_new b r) = []"
  by (simp_all add: Calibrator_new_def)

lemma add_calls_append:
  "add_calls (pre @ post) s =
     (fst (add_calls pre s) @ fst (add_calls post (snd (add_calls pre s))),
      snd (add_calls post (snd (add_calls pre s))))"
proof (induction pre arbitrary: s)
  case Nil
  show ?case by simp
next
  case (Cons c pre)
  show ?case
    by (cases c) (simp_all add: Cons.IH split_beta Let_def)
qed

text \<open>
  C4, as amended. From a newly constructed engine, the ids \<open>AddFrame\<close> returns are
  0, 1, 2, ... in call order as long as at most \<open>2 ^ 31\<close> calls of it are made, and so,
  independently, are the ids \<open>AddCamera\<close> returns; \<open>NumFrames\<close> and \<open>NumCameras\<close> are the
  numbers of calls made, without a bound. The sequence is arbitrary, and by
  \<open>add_calls_append\<close> the run of a prefix ends in the state the longer run passes
  through, so the counts hold at every point.
\<close>

theorem ids_count_up:
  "(AddFrame_calls cs \<le> 2 ^ 31 \<longrightarrow>
      map sint (frame_ids (fst (add_calls cs (Calibrator_new b r)))) =
        map int [0..<AddFrame_calls cs])
   \<and> (AddCamera_calls cs \<le> 2 ^ 31 \<longrightarrow>
      map sint (camera_ids (fst (add_calls cs (Calibrator_new b r)))) =
        map int [0..<AddCamera_calls cs])
   \<and> NumFrames (snd (add_calls cs (Calibrator_new b r))) = AddFrame_calls cs
   \<and> NumCameras (snd (add_calls cs (Calibrator_new b r))) = AddCamera_calls cs"
  using add_calls_ids [of cs "Calibrator_new b r"]
  by (simp add: Calibrator_new_fields map_sint_ids NumFrames_def NumCameras_def del: map_map)

theorem ids_count_up_witness:
  "AddFrame_calls [add_Frame (SE3_identity :: int SE3), add_Camera [] SE3_identity,
                   add_Frame SE3_identity] \<le> 2 ^ 31
   \<and> AddCamera_calls [add_Frame (SE3_identity :: int SE3), add_Camera [] SE3_identity,
                   add_Frame SE3_identity] \<le> 2 ^ 31
   \<and> map sint (frame_ids (fst (add_calls
         [add_Frame (SE3_identity :: int SE3), add_Camera [] SE3_identity, add_Frame SE3_identity]
         (Calibrator_new False False)))) = [0, 1]
   \<and> map sint (camera_ids (fst (add_calls
         [add_Frame (SE3_identity :: int SE3), add_Camera [] SE3_identity, add_Frame SE3_identity]
         (Calibrator_new False False)))) = [0]
   \<and> NumFrames (snd (add_calls
         [add_Frame (SE3_identity :: int SE3), add_Camera [] SE3_identity, add_Frame SE3_identity]
         (Calibrator_new False False))) = 2
   \<and> NumCameras (snd (add_calls
         [add_Frame (SE3_identity :: int SE3), add_Camera [] SE3_identity, add_Frame SE3_identity]
         (Calibrator_new False False))) = 1"
  using ids_count_up [of "[add_Frame (SE3_identity :: int SE3), add_Camera [] SE3_identity,
                   add_Frame SE3_identity]" False False]
  by (simp add: upt_rec)

lemma AddFrame_calls_replicate: "AddFrame_calls (replicate n (add_Frame T)) = n"
  by (induction n) simp_all

text \<open>
  The claim C4 as stated fails once \<open>2 ^ 31\<close> frames exist: the id is the vector's size
  narrowed to \<open>int\<close>, and the next call returns a negative number.
\<close>

theorem ids_wrap_counterexample:
  "map sint (frame_ids (fst (add_calls (replicate (2 ^ 31 + 1) (add_Frame (SE3_identity :: int SE3)))
      (Calibrator_new False False))))
   \<noteq> map int [0..<AddFrame_calls (replicate (2 ^ 31 + 1) (add_Frame (SE3_identity :: int SE3)))]"
proof
  let ?cs = "replicate (2 ^ 31 + 1) (add_Frame (SE3_identity :: int SE3))"
  let ?n = "(2 :: nat) ^ 31 + 1"
  assume eq: "map sint (frame_ids (fst (add_calls ?cs (Calibrator_new False False))))
     = map int [0..<AddFrame_calls ?cs]"
  have n: "AddFrame_calls ?cs = ?n"
    by (rule AddFrame_calls_replicate)
  have ids: "frame_ids (fst (add_calls ?cs (Calibrator_new False False :: int Calibrator)))
      = map word_of_nat [0..<?n]"
    using add_calls_ids [of ?cs "Calibrator_new False False"]
    unfolding n by (simp only: Calibrator_new_fields list.size add_0)
  have "map sint (map word_of_nat [0..<?n] :: cpp_int list) ! (2 ^ 31) = map int [0..<?n] ! (2 ^ 31)"
    using eq unfolding n ids by (rule arg_cong)
  moreover have "map sint (map word_of_nat [0..<?n] :: cpp_int list) ! (2 ^ 31)
       = sint (word_of_nat (2 ^ 31) :: cpp_int)"
    by (simp only: nth_map length_map length_upt nth_upt; simp)
  moreover have "map int [0..<?n] ! (2 ^ 31) = int (2 ^ 31)"
    by (simp only: nth_map length_map length_upt nth_upt; simp)
  ultimately show False by simp
qed

lemma Rig_apply_appends:
  "Rig_cameras (Rig_apply c r) = Rig_cameras r @ [call_camera c]"
  "Rig_t_wc (Rig_apply c r) = Rig_t_wc r @ [call_pose c]"
  by (cases c; simp add: Rig_AddCamera_def Rig_AddCamera_raw_def Let_def)+

lemma Rig_calls_appends:
  "Rig_cameras (Rig_calls cs r) = Rig_cameras r @ map call_camera cs
   \<and> Rig_t_wc (Rig_calls cs r) = Rig_t_wc r @ map call_pose cs"
  by (induction cs arbitrary: r) (simp_all add: Rig_apply_appends)

lemma zip_map_same: "zip (map f xs) (map g xs) = map (\<lambda>x. (f x, g x)) xs"
  by (induction xs) simp_all

text \<open>
  C10. After any sequence of \<open>Rig::AddCamera\<close> calls, of either overload, on a new rig,
  the camera vector and the pose vector have the same length and the i-th camera is
  paired with the i-th pose given; every call appends exactly one entry to each vector.
\<close>

theorem Rig_cameras_and_poses_parallel:
  "length (Rig_cameras (Rig_calls cs Rig_new)) = length (Rig_t_wc (Rig_calls cs Rig_new))
   \<and> zip (Rig_cameras (Rig_calls cs Rig_new)) (Rig_t_wc (Rig_calls cs Rig_new)) =
       map (\<lambda>c. (call_camera c, call_pose c)) cs
   \<and> Rig_cameras (Rig_apply c r) = Rig_cameras r @ [call_camera c]
   \<and> Rig_t_wc (Rig_apply c r) = Rig_t_wc r @ [call_pose c]"
  by (simp add: Rig_calls_appends Rig_apply_appends Rig_new_def zip_map_same)

lemma finite_minus_self: "is_finite x \<Longrightarrow> x - x = 0"
  by (cases x) (simp_all add: minus_xreal_def zero_xreal_def)

text \<open>
  C1, as amended. For every landmark, pixel and value of the three parameter blocks,
  over every scalar type, \<open>Evaluate\<close> returns the projection of \<open>T_ck * (T_kw * Pw)\<close>
  under the intrinsics, minus the observed pixel. Over the scalars with infinities,
  when the observed pixel is that projection and both of its components are finite, the
  residual is zero.
\<close>

theorem Evaluate_residual:
  fixes pm :: "'a::{plus,minus,times} Projection" and pmx :: "xreal Projection"
  shows "Evaluate pm cost (Tkw, Tck, camparam) =
           (True, vec2_sub (ProjModel_Map pm (fiducials_Project pm
                     (se3_mul_point Tck (se3_mul_point Tkw (m_Pw cost)))) camparam)
                   (m_pc cost))
       \<and> (m_pc costx = ProjModel_Map pmx (fiducials_Project pmx
                     (se3_mul_point Tckx (se3_mul_point Tkwx (m_Pw costx)))) camparamx
            \<and> finite_pixel (m_pc costx)
            \<longrightarrow> Evaluate pmx costx (Tkwx, Tckx, camparamx) = (True, Vec2t 0 0))"
proof -
  have z: "vec2_sub v v = Vec2t 0 0" if "finite_pixel v" for v
    using that by (cases v) (simp add: finite_minus_self)
  show ?thesis
    by (auto simp add: Evaluate_def Let_def z)
qed

theorem Evaluate_residual_witness:
  "m_pc example_cost = ProjModel_Map pinhole (fiducials_Project pinhole
       (se3_mul_point SE3_identity
          (se3_mul_point (SE3_identity\<lparr>translation := Vec3t 0 0 (Finite 2)\<rparr>)
             (m_Pw example_cost))))
       [Finite 4, Finite 2, Finite 1, Finite 1]
   \<and> finite_pixel (m_pc example_cost)
   \<and> Evaluate pinhole example_cost
        (SE3_identity\<lparr>translation := Vec3t 0 0 (Finite 2)\<rparr>, SE3_identity,
         [Finite 4, Finite 2, Finite 1, Finite 1]) = (True, Vec2t 0 0)"
proof -
  have h: "m_pc example_cost = ProjModel_Map pinhole (fiducials_Project pinhole
       (se3_mul_point SE3_identity
          (se3_mul_point (SE3_identity\<lparr>translation := Vec3t 0 0 (Finite 2)\<rparr>)
             (m_Pw example_cost))))
       [Finite 4, Finite 2, Finite 1, Finite 1]"
    by (simp add: example_cost_def pinhole_def SE3_identity_def se3_mul_point_def
        zero_xreal_def one_xreal_def)
  have f: "finite_pixel (m_pc example_cost)"
    by (simp add: example_cost_def)
  show ?thesis
    using h f Evaluate_residual [where costx = example_cost and pmx = pinhole
        and Tkwx = "SE3_identity\<lparr>translation := Vec3t 0 0 (Finite 2)\<rparr>"
        and Tckx = SE3_identity and camparamx = "[Finite 4, Finite 2, Finite 1, Finite 1]"]
    by blast
qed

text \<open>
  The claim C1 as stated fails at a pixel at infinity: a landmark at depth zero projects
  to \<open>(inf, inf)\<close>, the observed pixel is equal to it, and the residual is
  \<open>inf - inf\<close>, which is NaN and not zero.
\<close>

theorem Evaluate_infinite_pixel_counterexample:
  "m_pc cost_at_infinity = ProjModel_Map pinhole (fiducials_Project pinhole
       (se3_mul_point SE3_identity (se3_mul_point SE3_identity (m_Pw cost_at_infinity))))
       [Finite 1, Finite 1, Finite 0, Finite 0]
   \<and> Evaluate pinhole cost_at_infinity
        (SE3_identity, SE3_identity, [Finite 1, Finite 1, Finite 0, Finite 0])
       = (True, Vec2t NaN NaN)
   \<and> Evaluate pinhole cost_at_infinity
        (SE3_identity, SE3_identity, [Finite 1, Finite 1, Finite 0, Finite 0])
       \<noteq> (True, Vec2t 0 0)"
  by (simp add: Evaluate_def cost_at_infinity_def pinhole_def SE3_identity_def
      se3_mul_point_def zero_xreal_def one_xreal_def minus_xreal_def Let_def)

lemma add_camera_blocks_upto:
  "n \<le> length (m_camera s) \<Longrightarrow>
   (let q = fold (\<lambda>c problem.
             let problem =
                   AddParameterBlock (T_ck_data (m_camera s ! c)) 7 (Some LocalParamSe3) problem
             in if c = 0 then SetParameterBlockConstant (T_ck_data (m_camera s ! c)) problem
                else problem) [0..<n] problem
    in parameter_blocks q = parameter_blocks problem @
          map (\<lambda>p. (T_ck_data p, 7, Some LocalParamSe3)) (take n (m_camera s))
     \<and> constant_blocks q = constant_blocks problem @
          (if n = 0 then [] else [T_ck_data (m_camera s ! 0)])
     \<and> residual_blocks q = residual_blocks problem
     \<and> options q = options problem)"
proof (induction n)
  case 0
  show ?case by simp
next
  case (Suc n)
  then show ?case
    by (simp add: Let_def take_Suc_conv_app_nth AddParameterBlock_def
        SetParameterBlockConstant_def)
qed

lemma add_camera_blocks_fields:
  "parameter_blocks (add_camera_blocks s problem) = parameter_blocks problem @
      map (\<lambda>p. (T_ck_data p, 7, Some LocalParamSe3)) (m_camera s)"
  "constant_blocks (add_camera_blocks s problem) = constant_blocks problem @
      (if m_camera s = [] then [] else [T_ck_data (m_camera s ! 0)])"
  "residual_blocks (add_camera_blocks s problem) = residual_blocks problem"
  "options (add_camera_blocks s problem) = options problem"
  using add_camera_blocks_upto [of "length (m_camera s)" s problem]
  by (simp_all add: add_camera_blocks_def Let_def)

lemma add_frame_blocks_upto:
  "n \<le> length (m_T_kw s) \<Longrightarrow>
   (let q = fold (\<lambda>p problem.
             AddParameterBlock (SE3_data (m_T_kw s ! p)) 7 (Some LocalParamSe3) problem)
          [0..<n] problem
    in parameter_blocks q = parameter_blocks problem @
          map (\<lambda>p. (SE3_data p, 7, Some LocalParamSe3)) (take n (m_T_kw s))
     \<and> constant_blocks q = constant_blocks problem
     \<and> residual_blocks q = residual_blocks problem
     \<and> options q = options problem)"
proof (induction n)
  case 0
  show ?case by simp
next
  case (Suc n)
  then show ?case
    by (simp add: Let_def take_Suc_conv_app_nth AddParameterBlock_def)
qed

lemma add_frame_blocks_fields:
  "parameter_blocks (add_frame_blocks s problem) = parameter_blocks problem @
      map (\<lambda>p. (SE3_data p, 7, Some LocalParamSe3)) (m_T_kw s)"
  "constant_blocks (add_frame_blocks s problem) = constant_blocks problem"
  "residual_blocks (add_frame_blocks s problem) = residual_blocks problem"
  "options (add_frame_blocks s problem) = options problem"
  using add_frame_blocks_upto [of "length (m_T_kw s)" s problem]
  by (simp_all add: add_frame_blocks_def Let_def)

lemma add_costs_upto:
  "n \<le> length (m_costs s) \<Longrightarrow>
   (let q = fold (\<lambda>c problem.
             let cost = m_costs s ! c
             in AddResidualBlock cost (Loss cost) (Params cost) problem)
          [0..<n] problem
    in parameter_blocks q = parameter_blocks problem
     \<and> constant_blocks q = constant_blocks problem
     \<and> residual_blocks q = residual_blocks problem @
          map (\<lambda>cost. (cost, Loss cost, Params cost)) (take n (m_costs s))
     \<and> options q = options problem)"
proof (induction n)
  case 0
  show ?case by simp
next
  case (Suc n)
  then show ?case
    by (simp add: Let_def take_Suc_conv_app_nth AddResidualBlock_def)
qed

lemma add_costs_fields:
  "parameter_blocks (add_costs s problem) = parameter_blocks problem"
  "constant_blocks (add_costs s problem) = constant_blocks problem"
  "residual_blocks (add_costs s problem) = residual_blocks problem @
      map (\<lambda>cost. (cost, Loss cost, Params cost)) (m_costs s)"
  "options (add_costs s problem) = options problem"
  using add_costs_upto [of "length (m_costs s)" s problem]
  by (simp_all add: add_costs_def Let_def)

lemma BuildProblem_fields:
  "parameter_blocks (BuildProblem s) =
      map (\<lambda>p. (T_ck_data p, 7, Some LocalParamSe3)) (m_camera s) @
      map (\<lambda>p. (SE3_data p, 7, Some LocalParamSe3)) (m_T_kw s)"
  "constant_blocks (BuildProblem s) =
      (if m_camera s = [] then [] else [T_ck_data (m_camera s ! 0)])"
  "residual_blocks (BuildProblem s) = map (\<lambda>cost. (cost, Loss cost, Params cost)) (m_costs s)"
  "options (BuildProblem s) = m_prob_options s"
  by (simp_all add: BuildProblem_def add_costs_fields add_frame_blocks_fields
      add_camera_blocks_fields Problem_new_def)

lemma BuildProblem_mutex: "BuildProblem (s\<lparr>m_update_mutex := b\<rparr>) = BuildProblem s"
  by (simp add: BuildProblem_def add_costs_def add_frame_blocks_def add_camera_blocks_def
      cong: if_cong)

lemma BuildProblem_heap: "BuildProblem (s\<lparr>heap := h\<rparr>) = BuildProblem s"
  by (simp add: BuildProblem_def add_costs_def add_frame_blocks_def add_camera_blocks_def
      cong: if_cong)

lemma unlock_lock: "\<not> m_update_mutex s \<Longrightarrow> unlock (s\<lparr>m_update_mutex := True\<rparr>) = s"
  by (simp add: unlock_def)

lemma SolveThread_body_free:
  "\<not> m_update_mutex s \<Longrightarrow>
   SolveThread_body solver s =
     (if m_costs s \<noteq> [] then
        (case solver (m_solver_options s) (BuildProblem s) (heap s) of
           (h, Inr summary) \<Rightarrow>
             ([Solve (BuildProblem s), cout_BriefReport summary,
               cout_Frames_Observations_mse (length (m_T_kw s))
                 (num_residuals summary) (final_cost summary)],
              Inr (s\<lparr>heap := h\<rparr>))
         | (h, Inl (std_exception w)) \<Rightarrow>
             ([Solve (BuildProblem s), cerr_what std_exception_what], Inr (s\<lparr>heap := h\<rparr>))
         | (h, Inl other_object) \<Rightarrow>
             ([Solve (BuildProblem s)], Inl (Uncaught other_object)))
      else ([], Inr s))"
  by (simp add: SolveThread_body_def lock_def Let_def BuildProblem_mutex unlock_lock
      NumResiduals_def BuildProblem_fields)

text \<open>
  C5. In an iteration that finds the mutex free, \<open>ceres::Solve\<close> is called if and only
  if the problem just built has a residual. When it has, the solver is applied to that
  problem and the memory, and what the iteration prints, the memory it leaves and
  whether it ends normally are what the solver returned. When it has none, no call is
  made, nothing is raised and the whole state, so every parameter value, is as it was.
\<close>

theorem solver_called_iff_residuals:
  assumes "\<not> m_update_mutex s"
  shows "(0 < NumResiduals (BuildProblem s) \<longrightarrow>
            SolveThread_body solver s =
              (case solver (m_solver_options s) (BuildProblem s) (heap s) of
                 (h, Inr summary) \<Rightarrow>
                   ([Solve (BuildProblem s), cout_BriefReport summary,
                     cout_Frames_Observations_mse (length (m_T_kw s))
                       (num_residuals summary) (final_cost summary)],
                    Inr (s\<lparr>heap := h\<rparr>))
               | (h, Inl (std_exception w)) \<Rightarrow>
                   ([Solve (BuildProblem s), cerr_what std_exception_what],
                    Inr (s\<lparr>heap := h\<rparr>))
               | (h, Inl other_object) \<Rightarrow>
                   ([Solve (BuildProblem s)], Inl (Uncaught other_object))))
       \<and> (NumResiduals (BuildProblem s) = 0 \<longrightarrow>
            SolveThread_body solver s = ([], Inr s))
       \<and> ((\<exists>problem. Solve problem \<in> set (fst (SolveThread_body solver s)))
            = (0 < NumResiduals (BuildProblem s)))
       \<and> (\<forall>problem. Solve problem \<in> set (fst (SolveThread_body solver s))
                  \<longrightarrow> problem = BuildProblem s)
       \<and> NumResiduals (BuildProblem s) = 2 * length (m_costs s)"
  using assms
  by (auto simp add: SolveThread_body_free BuildProblem_fields NumResiduals_def
      split: prod.splits sum.splits thrown.splits)

lemma do_calls_Nil_loop:
  "SolveThread_loop solver ([] # schedule) s =
     (if m_should_run s then
        (case SolveThread_body solver s of
           (out, Inl f) \<Rightarrow> (out, Faulted f)
         | (out, Inr s2) \<Rightarrow>
             (case SolveThread_loop solver schedule s2 of (out', t) \<Rightarrow> (out @ out', t)))
      else ([], Returned (s\<lparr>m_running := False\<rparr>)))"
  by simp

lemma SolveThread_body_Uncaught:
  "snd (SolveThread_body solver s) = Inl (Uncaught e) \<Longrightarrow>
     e = other_object \<and> (\<exists>opts p m. snd (solver opts p m) = Inl other_object)"
  by (auto simp add: SolveThread_body_def lock_def Let_def
      split: prod.splits sum.splits thrown.splits if_splits) (metis snd_conv)

lemma do_call_not_Uncaught: "do_call c s \<noteq> Inl (Uncaught e)"
  by (cases c) (auto simp add: AddObservation_def AddObservation_locked_def lock_def at_int_def
      GetFrame_def split: sum.splits if_splits)

lemma do_calls_not_Uncaught: "do_calls cs s \<noteq> Inl (Uncaught e)"
  by (induction cs arbitrary: s) (auto simp add: do_call_not_Uncaught split: sum.splits)

lemma loop_not_Uncaught:
  assumes "\<forall>opts p m. snd (solver opts p m) \<noteq> Inl other_object"
  shows "snd (SolveThread_loop solver schedule s) \<noteq> Faulted (Uncaught e)"
proof (induction schedule arbitrary: s)
  case Nil
  show ?case by simp
next
  case (Cons calls schedule)
  show ?case
  proof (cases "do_calls calls s")
    case (Inl f)
    then show ?thesis using do_calls_not_Uncaught [of calls s e] by auto
  next
    case (Inr s1)
    show ?thesis
    proof (cases "SolveThread_body solver s1")
      case (Pair out r)
      show ?thesis
      proof (cases r)
        case (Inl f)
        have "f \<noteq> Uncaught e"
          using SolveThread_body_Uncaught [of solver s1 e] Pair Inl assms by auto
        then show ?thesis using Inr Pair Inl by simp
      next
        case (Inr s2)
        then show ?thesis
          using \<open>do_calls calls s = Inr s1\<close> Pair Cons.IH [of s2]
          by (simp add: split_beta)
      qed
    qed
  qed
qed

text \<open>
  C6, as amended. When the solve call throws an object of \<open>std::exception\<close> or of a
  class derived from it, the loop's handler catches it and writes to \<open>std::cerr\<close>, and
  the loop goes on to its next iteration, which builds its problem anew; with a solver
  that throws nothing else, no exception ever leaves the loop.
\<close>

theorem std_exception_is_caught:
  assumes "\<not> m_update_mutex s" and "m_should_run s" and "m_costs s \<noteq> []"
    and "solver (m_solver_options s) (BuildProblem s) (heap s) = (h, Inl (std_exception w))"
  shows "SolveThread_body solver s =
           ([Solve (BuildProblem s), cerr_what std_exception_what], Inr (s\<lparr>heap := h\<rparr>))
       \<and> SolveThread_loop solver ([] # schedule) s =
           ([Solve (BuildProblem s), cerr_what std_exception_what]
              @ fst (SolveThread_loop solver schedule (s\<lparr>heap := h\<rparr>)),
            snd (SolveThread_loop solver schedule (s\<lparr>heap := h\<rparr>)))
       \<and> ((\<forall>opts p m. snd (solver opts p m) \<noteq> Inl other_object) \<longrightarrow>
            (\<forall>sched s0 e. snd (SolveThread_loop solver sched s0) \<noteq> Faulted (Uncaught e)))"
proof -
  have body: "SolveThread_body solver s =
           ([Solve (BuildProblem s), cerr_what std_exception_what], Inr (s\<lparr>heap := h\<rparr>))"
    using assms by (simp add: SolveThread_body_free)
  have loop: "SolveThread_loop solver ([] # schedule) s =
           ([Solve (BuildProblem s), cerr_what std_exception_what]
              @ fst (SolveThread_loop solver schedule (s\<lparr>heap := h\<rparr>)),
            snd (SolveThread_loop solver schedule (s\<lparr>heap := h\<rparr>)))"
    using assms(2) by (simp add: body split_beta)
  show ?thesis
    using body loop loop_not_Uncaught by blast
qed









lemma allocated_AddCamera: "allocated s \<Longrightarrow> allocated (snd (AddCamera cam T s))"
  by (auto simp add: allocated_def AddCamera_def new_object_def Let_def less_Suc_eq)

lemma allocated_AddFrame: "allocated s \<Longrightarrow> allocated (snd (AddFrame T s))"
  by (auto simp add: allocated_def AddFrame_def new_object_def Let_def less_Suc_eq)

lemma allocated_do_call: "allocated s \<Longrightarrow> do_call c s = Inr s' \<Longrightarrow> allocated s'"
proof (cases c)
  case (Call_AddCamera cam T)
  assume "allocated s" "do_call c s = Inr s'"
  then show ?thesis using allocated_AddCamera [of s cam T] Call_AddCamera by auto
next
  case (Call_AddFrame T)
  assume "allocated s" "do_call c s = Inr s'"
  then show ?thesis using allocated_AddFrame [of s T] Call_AddFrame by auto
next
  case (Call_AddObservation f cm P p)
  assume "allocated s" "do_call c s = Inr s'"
  then show ?thesis using Call_AddObservation
    by (auto simp add: allocated_def AddObservation_def AddObservation_locked_def lock_def
        unlock_def Let_def split: sum.splits if_splits)
next
  case (Call_GetFrame_assign i T)
  assume "allocated s" "do_call c s = Inr s'"
  then show ?thesis using Call_GetFrame_assign
    by (auto simp add: allocated_def GetFrame_def assign_object_def split: sum.splits if_splits)
next
  case Call_Stop
  assume "allocated s" "do_call c s = Inr s'"
  then show ?thesis using Call_Stop by (auto simp add: allocated_def)
next
  case Call_Clear
  assume "allocated s" "do_call c s = Inr s'"
  then show ?thesis using Call_Clear by (auto simp add: allocated_def Clear_def)
qed

lemma gauge_do_call:
  assumes "gauge a v s" and "c \<noteq> Call_Clear" and "do_call c s = Inr s'"
  shows "gauge a v s'"
proof -
  from assms(1) have ne: "m_camera s \<noteq> []" and a0: "m_camera s ! 0 = a"
    and al: "allocated s" and rd: "read_block (heap s) (T_ck_data a) = v"
    by (simp_all add: gauge_def)
  from ne a0 have ain: "a \<in> set (m_camera s)"
    by (metis length_greater_0_conv nth_mem)
  with al have lt: "a < next_addr s" and notframe: "a \<notin> set (m_T_kw s)"
    by (auto simp add: allocated_def)
  have al': "allocated s'"
    using al assms(3) by (rule allocated_do_call)
  show ?thesis
  proof (cases c)
    case (Call_AddCamera cam T)
    then show ?thesis
      using assms(3) ne a0 rd lt al'
      by (auto simp add: gauge_def AddCamera_def new_object_def Let_def nth_append)
  next
    case (Call_AddFrame T)
    then show ?thesis
      using assms(3) ne a0 rd lt al'
      by (auto simp add: gauge_def AddFrame_def new_object_def Let_def)
  next
    case (Call_AddObservation f cm P p)
    then show ?thesis
      using assms(3) ne a0 rd al'
      by (auto simp add: gauge_def AddObservation_def AddObservation_locked_def lock_def
          unlock_def Let_def split: sum.splits if_splits)
  next
    case (Call_GetFrame_assign i T)
    then show ?thesis
      using assms(3) ne a0 rd al' notframe
      by (auto simp add: gauge_def GetFrame_def assign_object_def split: sum.splits if_splits)
  next
    case Call_Stop
    then show ?thesis
      using assms(3) ne a0 rd al' by (auto simp add: gauge_def)
  next
    case Call_Clear
    with assms(2) show ?thesis by simp
  qed
qed

lemma gauge_do_calls:
  "gauge a v s \<Longrightarrow> Call_Clear \<notin> set cs \<Longrightarrow> do_calls cs s = Inr s' \<Longrightarrow> gauge a v s'"
proof (induction cs arbitrary: s)
  case Nil
  then show ?case by simp
next
  case (Cons c cs)
  from Cons.prems obtain s1 where c: "do_call c s = Inr s1" and cs: "do_calls cs s1 = Inr s'"
    by (auto split: sum.splits)
  from Cons.prems c have "gauge a v s1"
    using gauge_do_call [of a v s c s1] by auto
  with Cons.prems cs show ?case
    using Cons.IH [of s1] by auto
qed

lemma gauge_heap:
  "gauge a v s \<Longrightarrow> read_block h (T_ck_data a) = v \<Longrightarrow> gauge a v (s\<lparr>heap := h\<rparr>)"
  by (simp add: gauge_def allocated_def)

lemma gauge_body:
  assumes "keeps_constant_blocks solver" and "gauge a v s"
    and "SolveThread_body solver s = (out, Inr s')"
  shows "gauge a v s'"
proof (cases "m_update_mutex s")
  case True
  with assms(3) show ?thesis by (simp add: SolveThread_body_def lock_def)
next
  case False
  from assms(2) have c: "constant_blocks (BuildProblem s) = [T_ck_data a]"
    by (simp add: gauge_def BuildProblem_fields)
  have k: "read_block (fst (solver (m_solver_options s) (BuildProblem s) (heap s))) (T_ck_data a)
      = read_block (heap s) (T_ck_data a)"
  proof -
    from assms(1) have "\<forall>b\<in>set (constant_blocks (BuildProblem s)).
        read_block (fst (solver (m_solver_options s) (BuildProblem s) (heap s))) b
          = read_block (heap s) b"
      unfolding keeps_constant_blocks_def by blast
    then show ?thesis unfolding c by (simp del: read_block.simps)
  qed
  from assms(2) have rd: "read_block (heap s) (T_ck_data a) = v"
    by (simp add: gauge_def)
  show ?thesis
    using assms(2,3) False k rd gauge_heap [OF assms(2)]
    by (auto simp add: SolveThread_body_free split: if_splits prod.splits sum.splits thrown.splits)
qed

lemma gauge_loop:
  assumes "keeps_constant_blocks solver"
  shows "gauge a v s \<Longrightarrow> no_Clear schedule \<Longrightarrow>
   snd (SolveThread_loop solver schedule s) = In_loop s'
     \<or> snd (SolveThread_loop solver schedule s) = Returned s' \<Longrightarrow>
   gauge a v s'"
proof (induction schedule arbitrary: s)
  case Nil
  then show ?case by simp
next
  case (Cons calls schedule)
  from Cons.prems(2) have nc: "Call_Clear \<notin> set calls" and ns: "no_Clear schedule"
    by (simp_all add: no_Clear_def)
  from Cons.prems(3) obtain s1 where s1: "do_calls calls s = Inr s1"
    by (cases "do_calls calls s") auto
  from Cons.prems(1) nc s1 have g1: "gauge a v s1"
    by (rule gauge_do_calls)
  show ?case
  proof (cases "m_should_run s1")
    case False
    with Cons.prems(3) s1 have "s' = s1\<lparr>m_running := False\<rparr>" by auto
    with g1 show ?thesis by (simp add: gauge_def allocated_def)
  next
    case True
    obtain out r where b: "SolveThread_body solver s1 = (out, r)"
      by (cases "SolveThread_body solver s1") auto
    with Cons.prems(3) s1 True obtain s2 where r: "r = Inr s2"
      by (cases r) auto
    from assms g1 b r have g2: "gauge a v s2"
      using gauge_body by blast
    from Cons.prems(3) s1 True b r
    have "snd (SolveThread_loop solver schedule s2) = In_loop s'
        \<or> snd (SolveThread_loop solver schedule s2) = Returned s'"
      by (simp add: split_beta)
    with g2 ns show ?thesis
      using Cons.IH [of s2] by blast
  qed
qed

lemma gauge_AddCamera:
  assumes "allocated s0" and "m_camera s0 = []"
  shows "gauge (next_addr s0) (Some (Pose T)) (snd (AddCamera cam T s0))"
  using assms allocated_AddCamera [OF assms(1), of cam T]
  by (simp add: gauge_def AddCamera_def new_object_def Let_def)

lemma BuildProblem_free_blocks:
  assumes "allocated s"
  shows "(\<forall>c. 0 < c \<and> c < NumCameras s \<longrightarrow>
            T_ck_data (m_camera s ! c) \<notin> set (constant_blocks (BuildProblem s)))
       \<and> (\<forall>p. p < NumFrames s \<longrightarrow>
            SE3_data (m_T_kw s ! p) \<notin> set (constant_blocks (BuildProblem s)))"
proof -
  from assms have d: "distinct (m_camera s)"
    by (simp add: allocated_def)
  have "m_camera s ! c \<noteq> m_camera s ! 0" if "0 < c" and "c < length (m_camera s)" for c
  proof -
    from that have "0 < length (m_camera s)" by (cases "m_camera s") auto
    with that d show ?thesis by (simp add: nth_eq_iff_index_eq)
  qed
  then show ?thesis
    by (auto simp add: BuildProblem_fields NumCameras_def NumFrames_def)
qed

text \<open>
  C2. Every problem the loop builds marks constant the extrinsic block of camera 0 and
  no other block, and registers every camera's extrinsic block and every frame's pose
  with the pose parameterization. With a solver that leaves constant blocks alone,
  after any number of iterations, interleaved with any calls but \<open>Clear\<close>, the
  extrinsic pose of camera 0 is the one \<open>AddCamera\<close> was given.
\<close>

theorem camera0_extrinsic_is_constant:
  assumes "keeps_constant_blocks solver" and "allocated s0" and "m_camera s0 = []"
    and "no_Clear schedule"
    and "snd (SolveThread solver schedule (snd (AddCamera cam T s0))) = In_loop s'
       \<or> snd (SolveThread solver schedule (snd (AddCamera cam T s0))) = Returned s'"
  shows "read_block (heap s') (T_ck_data (m_camera s' ! 0)) = Some (Pose T)
       \<and> m_camera s' ! 0 = m_camera (snd (AddCamera cam T s0)) ! 0
       \<and> allocated s'
       \<and> (\<forall>s :: 'a Calibrator.
             constant_blocks (BuildProblem s) =
               (if m_camera s = [] then [] else [T_ck_data (m_camera s ! 0)])
           \<and> parameter_blocks (BuildProblem s) =
               map (\<lambda>p. (T_ck_data p, 7, Some LocalParamSe3)) (m_camera s) @
               map (\<lambda>p. (SE3_data p, 7, Some LocalParamSe3)) (m_T_kw s))
       \<and> (\<forall>s :: 'a Calibrator. allocated s \<longrightarrow>
             (\<forall>c. 0 < c \<and> c < NumCameras s \<longrightarrow>
                T_ck_data (m_camera s ! c) \<notin> set (constant_blocks (BuildProblem s)))
           \<and> (\<forall>p. p < NumFrames s \<longrightarrow>
                SE3_data (m_T_kw s ! p) \<notin> set (constant_blocks (BuildProblem s))))"
proof -
  let ?s = "snd (AddCamera cam T s0)"
  have g: "gauge (next_addr s0) (Some (Pose T)) ?s"
    using assms(2,3) by (rule gauge_AddCamera)
  then have g1: "gauge (next_addr s0) (Some (Pose T)) (?s\<lparr>m_running := True\<rparr>)"
    by (simp add: gauge_def allocated_def)
  have g': "gauge (next_addr s0) (Some (Pose T)) s'"
    using gauge_loop [OF assms(1) g1 assms(4)] assms(5) by (simp add: SolveThread_def)
  from g have a0: "m_camera ?s ! 0 = next_addr s0"
    by (simp add: gauge_def)
  have 1: "read_block (heap s') (T_ck_data (m_camera s' ! 0)) = Some (Pose T)"
    using g' by (simp add: gauge_def del: read_block.simps)
  have 2: "m_camera s' ! 0 = m_camera ?s ! 0"
    using g' a0 by (simp add: gauge_def)
  have 3: "allocated s'"
    using g' by (simp add: gauge_def)
  have 4: "constant_blocks (BuildProblem s) =
               (if m_camera s = [] then [] else [T_ck_data (m_camera s ! 0)])
           \<and> parameter_blocks (BuildProblem s) =
               map (\<lambda>p. (T_ck_data p, 7, Some LocalParamSe3)) (m_camera s) @
               map (\<lambda>p. (SE3_data p, 7, Some LocalParamSe3)) (m_T_kw s)"
    for s :: "'a Calibrator"
    by (simp add: BuildProblem_fields)
  show ?thesis
    using 1 2 3 4 BuildProblem_free_blocks by blast
qed

text \<open>
  C9. For a valid index, \<open>GetCamera\<close> yields a new object that holds a copy of the stored
  entry: whatever is assigned to it, the objects the engine owns stay as they were.
  \<open>GetFrame\<close> yields the address of the stored pose itself: an assignment through it
  is an assignment to the engine's frame.
\<close>

theorem GetCamera_copies_GetFrame_aliases:
  assumes "allocated s"
    and "i < NumCameras s" and "heap s (m_camera s ! i) = Some (CameraAndPose_object cp)"
    and "j < NumFrames s"
  shows "(\<exists>p s'. GetCamera s i = Inr (p, s')
            \<and> heap s' p = Some (CameraAndPose_object cp)
            \<and> m_camera s' = m_camera s \<and> m_T_kw s' = m_T_kw s
            \<and> p \<noteq> m_camera s ! i
            \<and> (\<forall>v. heap (assign_object p v s') (m_camera s' ! i)
                    = Some (CameraAndPose_object cp))
            \<and> (\<forall>v q. q \<in> set (m_camera s) \<union> set (m_T_kw s) \<longrightarrow>
                    heap (assign_object p v s') q = heap s q))
       \<and> GetFrame s j = Inr (m_T_kw s ! j)
       \<and> (\<forall>T. heap (assign_object (m_T_kw s ! j) (SE3d T) s) (m_T_kw s ! j) = Some (SE3d T))"
proof -
  from assms(1) have lt: "\<forall>q\<in>set (m_camera s) \<union> set (m_T_kw s). q < next_addr s"
    by (auto simp add: allocated_def)
  from assms(2) have "m_camera s ! i \<in> set (m_camera s)"
    by (simp add: NumCameras_def)
  with lt have ne: "next_addr s \<noteq> m_camera s ! i"
    by auto
  have c: "GetCamera s i = Inr (new_object (CameraAndPose_object cp) s)"
    using assms(2,3) by (simp add: GetCamera_def NumCameras_def)
  have f: "GetFrame s j = Inr (m_T_kw s ! j)"
    using assms(4) by (simp add: GetFrame_def NumFrames_def)
  show ?thesis
    using c f ne lt assms(3)
    by (auto simp add: new_object_def assign_object_def)
qed

lemma example_engine_eq:
  "example_engine =
     \<lparr>heap = ((\<lambda>a. None)(0 \<mapsto> CameraAndPose_object \<lparr>camera = [4, 2, 1, 1], T_ck = SE3_identity\<rparr>))
               (Suc 0 \<mapsto> SE3d example_T_kw),
      next_addr = 2, m_update_mutex = False, m_should_run = True, m_running = False,
      m_T_kw = [Suc 0], m_camera = [0],
      m_costs = [\<lparr>Params = [SE3_data (Suc 0), T_ck_data 0, camera_data 0], Loss = None,
                  m_Pw = Vec3t 1 2 2, m_pc = Vec2t 2 2\<rparr>],
      m_prob_options =
        \<lparr>cost_function_ownership = DO_NOT_TAKE_OWNERSHIP,
         local_parameterization_ownership = DO_NOT_TAKE_OWNERSHIP,
         loss_function_ownership = DO_NOT_TAKE_OWNERSHIP\<rparr>,
      m_solver_options =
        \<lparr>num_threads = 4, update_state_every_iteration = True, max_num_iterations = 100\<rparr>\<rparr>"
  by (simp add: example_engine_def example_calls_def Calibrator_new_def AddCamera_def
      AddFrame_def new_object_def AddObservation_def AddObservation_locked_def lock_def
      unlock_def at_int_def Let_def numeral_2_eq_2)

lemma example_calls_run: "do_calls example_calls (Calibrator_new True False) = Inr example_engine"
  by (simp add: example_engine_def example_calls_def Calibrator_new_def AddCamera_def
      AddFrame_def new_object_def AddObservation_def AddObservation_locked_def lock_def
      unlock_def at_int_def Let_def)

lemma example_engine_fields:
  "\<not> m_update_mutex example_engine" "m_should_run example_engine"
  "m_costs example_engine = [\<lparr>Params = [SE3_data (Suc 0), T_ck_data 0, camera_data 0], Loss = None,
                  m_Pw = Vec3t 1 2 2, m_pc = Vec2t 2 2\<rparr>]"
  "m_T_kw example_engine = [Suc 0]" "m_camera example_engine = [0]"
  "next_addr example_engine = 2"
  "heap example_engine 0 = Some (CameraAndPose_object \<lparr>camera = [4, 2, 1, 1], T_ck = SE3_identity\<rparr>)"
  "heap example_engine (Suc 0) = Some (SE3d example_T_kw)"
  by (simp_all add: example_engine_eq)

lemma Calibrator_new_more_fields:
  "\<not> m_update_mutex (Calibrator_new b r)" "m_costs (Calibrator_new b r) = []"
  "next_addr (Calibrator_new b r) = 0" "m_should_run (Calibrator_new b r) = b"
  by (simp_all add: Calibrator_new_def)

lemma allocated_Calibrator_new: "allocated (Calibrator_new b r)"
  by (simp add: allocated_def Calibrator_new_def)

theorem solver_called_iff_residuals_witness:
  "\<not> m_update_mutex example_engine
   \<and> 0 < NumResiduals (BuildProblem example_engine)
   \<and> heap example_engine (Suc 0) = Some (SE3d example_T_kw)
   \<and> (\<exists>s'. SolveThread_body reset_frames_solver example_engine =
              ([Solve (BuildProblem example_engine),
                cout_BriefReport \<lparr>final_cost = 0, num_residuals = 2\<rparr>,
                cout_Frames_Observations_mse 1 2 0], Inr s')
         \<and> heap s' (Suc 0) = Some (SE3d SE3_identity))
   \<and> \<not> m_update_mutex (snd (AddFrame example_T_kw (Calibrator_new True False)))
   \<and> NumResiduals (BuildProblem (snd (AddFrame example_T_kw (Calibrator_new True False)))) = 0
   \<and> fst (reset_frames_solver
          (m_solver_options (snd (AddFrame example_T_kw (Calibrator_new True False))))
          (BuildProblem (snd (AddFrame example_T_kw (Calibrator_new True False))))
          (heap (snd (AddFrame example_T_kw (Calibrator_new True False))))) 0
       = Some (SE3d SE3_identity)
   \<and> heap (snd (AddFrame example_T_kw (Calibrator_new True False))) 0
       = Some (SE3d example_T_kw)
   \<and> SolveThread_body reset_frames_solver
        (snd (AddFrame example_T_kw (Calibrator_new True False)))
       = ([], Inr (snd (AddFrame example_T_kw (Calibrator_new True False))))"
proof -
  let ?s0 = "snd (AddFrame example_T_kw (Calibrator_new True False :: real Calibrator))"
  have f0: "\<not> m_update_mutex ?s0" "m_costs ?s0 = []" "m_T_kw ?s0 = [0]" "m_camera ?s0 = []"
    "heap ?s0 0 = Some (SE3d example_T_kw)"
    by (simp_all add: AddFrame_def new_object_def Calibrator_new_def Let_def)
  note t1 = solver_called_iff_residuals [OF example_engine_fields(1), of reset_frames_solver]
  note t0 = solver_called_iff_residuals [OF f0(1), of reset_frames_solver]
  have n1: "0 < NumResiduals (BuildProblem example_engine)"
    using t1 [THEN conjunct2, THEN conjunct2, THEN conjunct2, THEN conjunct2]
    by (simp add: example_engine_fields)
  have n0: "NumResiduals (BuildProblem ?s0) = 0"
    using t0 [THEN conjunct2, THEN conjunct2, THEN conjunct2, THEN conjunct2]
    by (simp add: f0)
  have b0: "SolveThread_body reset_frames_solver ?s0 = ([], Inr ?s0)"
    using t0 [THEN conjunct2, THEN conjunct1, THEN mp, OF n0] .
  have "SolveThread_body reset_frames_solver example_engine =
              (case reset_frames_solver (m_solver_options example_engine)
                      (BuildProblem example_engine) (heap example_engine) of
                 (h, Inr summary) \<Rightarrow>
                   ([Solve (BuildProblem example_engine), cout_BriefReport summary,
                     cout_Frames_Observations_mse (length (m_T_kw example_engine))
                       (num_residuals summary) (final_cost summary)],
                    Inr (example_engine\<lparr>heap := h\<rparr>))
               | (h, Inl (std_exception w)) \<Rightarrow>
                   ([Solve (BuildProblem example_engine), cerr_what std_exception_what],
                    Inr (example_engine\<lparr>heap := h\<rparr>))
               | (h, Inl other_object) \<Rightarrow>
                   ([Solve (BuildProblem example_engine)], Inl (Uncaught other_object)))"
    using t1 [THEN conjunct1, THEN mp, OF n1] .
  then have b1: "\<exists>s'. SolveThread_body reset_frames_solver example_engine =
              ([Solve (BuildProblem example_engine),
                cout_BriefReport \<lparr>final_cost = 0, num_residuals = 2\<rparr>,
                cout_Frames_Observations_mse 1 2 0], Inr s')
         \<and> heap s' (Suc 0) = Some (SE3d SE3_identity)"
    by (simp add: reset_frames_solver_def example_engine_fields BuildProblem_fields
        NumResiduals_def)
  have r0: "fst (reset_frames_solver (m_solver_options ?s0) (BuildProblem ?s0) (heap ?s0)) 0
       = Some (SE3d SE3_identity)"
    by (simp add: reset_frames_solver_def f0 BuildProblem_fields)
  show ?thesis
    using example_engine_fields(1) n1 example_engine_fields(8) b1 f0(1) n0 r0 f0(5) b0
    by (intro conjI)
qed

theorem std_exception_is_caught_witness:
  "\<not> m_update_mutex example_engine \<and> m_should_run example_engine
   \<and> m_costs example_engine \<noteq> []
   \<and> throwing_solver (std_exception ''singular'') (m_solver_options example_engine)
        (BuildProblem example_engine) (heap example_engine)
       = (heap example_engine, Inl (std_exception ''singular''))
   \<and> SolveThread_body (throwing_solver (std_exception ''singular'')) example_engine
       = ([Solve (BuildProblem example_engine), cerr_what std_exception_what],
          Inr example_engine)
   \<and> SolveThread_loop (throwing_solver (std_exception ''singular'')) [[], []] example_engine
       = ([Solve (BuildProblem example_engine), cerr_what std_exception_what,
           Solve (BuildProblem example_engine), cerr_what std_exception_what],
          In_loop example_engine)"
proof -
  have h: "throwing_solver (std_exception ''singular'') (m_solver_options example_engine)
        (BuildProblem example_engine) (heap example_engine)
       = (heap example_engine, Inl (std_exception ''singular''))"
    by (simp add: throwing_solver_def)
  have m: "m_costs example_engine \<noteq> []"
    by (simp add: example_engine_fields)
  have e: "example_engine\<lparr>heap := heap example_engine\<rparr> = example_engine"
    by simp
  note t = std_exception_is_caught [where solver = "throwing_solver (std_exception ''singular'')"
      and s = example_engine, OF example_engine_fields(1,2) m h]
  have b: "SolveThread_body (throwing_solver (std_exception ''singular'')) example_engine
       = ([Solve (BuildProblem example_engine), cerr_what std_exception_what],
          Inr example_engine)"
    using t [of "[]"] by (simp only: e)
  have l1: "SolveThread_loop (throwing_solver (std_exception ''singular'')) [[]] example_engine
       = ([Solve (BuildProblem example_engine), cerr_what std_exception_what],
          In_loop example_engine)"
    using t [of "[]"] by (simp add: e)
  have l2: "SolveThread_loop (throwing_solver (std_exception ''singular'')) [[], []] example_engine
       = ([Solve (BuildProblem example_engine), cerr_what std_exception_what,
           Solve (BuildProblem example_engine), cerr_what std_exception_what],
          In_loop example_engine)"
    using t [of "[[]]"] by (simp only: e l1 fst_conv snd_conv append.simps)
  show ?thesis
    using example_engine_fields(1,2) m h b l2 by (intro conjI)
qed

text \<open>
  The claim C6 as stated fails for a thrown object that is not a \<open>std::exception\<close>:
  the handler does not match, and the exception leaves the loop.
\<close>

theorem other_exception_escapes_counterexample:
  "snd (SolveThread_loop (throwing_solver other_object) [example_calls]
          (Calibrator_new True False))
     = Faulted (Uncaught other_object)"
  by (simp add: example_calls_run example_engine_fields SolveThread_body_free
      throwing_solver_def)


theorem GetCamera_copies_GetFrame_aliases_witness:
  "allocated example_engine \<and> 0 < NumCameras example_engine
   \<and> heap example_engine (m_camera example_engine ! 0)
       = Some (CameraAndPose_object \<lparr>camera = [4, 2, 1, 1], T_ck = SE3_identity\<rparr>)
   \<and> 0 < NumFrames example_engine
   \<and> (\<exists>p s'. GetCamera example_engine 0 = Inr (p, s')
         \<and> heap s' p = Some (CameraAndPose_object \<lparr>camera = [4, 2, 1, 1], T_ck = SE3_identity\<rparr>)
         \<and> p \<noteq> m_camera example_engine ! 0
         \<and> (\<forall>v. heap (assign_object p v s') (m_camera s' ! 0)
               = Some (CameraAndPose_object \<lparr>camera = [4, 2, 1, 1], T_ck = SE3_identity\<rparr>)))
   \<and> GetFrame example_engine 0 = Inr 1
   \<and> (\<forall>T. heap (assign_object 1 (SE3d T) example_engine) 1 = Some (SE3d T))"
proof -
  have h1: "allocated example_engine"
    by (simp add: allocated_def example_engine_fields)
  have h2: "0 < NumCameras example_engine"
    by (simp add: NumCameras_def example_engine_fields)
  have h3: "heap example_engine (m_camera example_engine ! 0)
       = Some (CameraAndPose_object \<lparr>camera = [4, 2, 1, 1], T_ck = SE3_identity\<rparr>)"
    by (simp add: example_engine_fields)
  have h4: "0 < NumFrames example_engine"
    by (simp add: NumFrames_def example_engine_fields)
  note t = GetCamera_copies_GetFrame_aliases [OF h1 h2 h3 h4]
  from t have c: "\<exists>p s'. GetCamera example_engine 0 = Inr (p, s')
         \<and> heap s' p = Some (CameraAndPose_object \<lparr>camera = [4, 2, 1, 1], T_ck = SE3_identity\<rparr>)
         \<and> p \<noteq> m_camera example_engine ! 0
         \<and> (\<forall>v. heap (assign_object p v s') (m_camera s' ! 0)
               = Some (CameraAndPose_object \<lparr>camera = [4, 2, 1, 1], T_ck = SE3_identity\<rparr>))"
    by blast
  from t have f: "GetFrame example_engine 0 = Inr 1"
    "\<forall>T. heap (assign_object 1 (SE3d T) example_engine) 1 = Some (SE3d T)"
    by (simp_all add: example_engine_fields)
  show ?thesis
    using h1 h2 h3 h4 c f by (intro conjI)
qed

lemma keeps_constant_blocks_reset_frames: "keeps_constant_blocks reset_frames_solver"
  unfolding keeps_constant_blocks_def
proof (intro allI ballI)
  fix opts :: SolverOptions and problem :: "real Problem" and h :: "real memory" and b
  assume c: "b \<in> set (constant_blocks problem)"
  show "read_block (fst (reset_frames_solver opts problem h)) b = read_block h b"
  proof (cases b)
    case (SE3_data p)
    with c show ?thesis
      by (auto simp add: reset_frames_solver_def split: option.splits object.splits)
  next
    case (T_ck_data p)
    then show ?thesis
      by (auto simp add: reset_frames_solver_def split: option.splits object.splits)
  next
    case (camera_data p)
    then show ?thesis
      by (auto simp add: reset_frames_solver_def split: option.splits object.splits)
  qed
qed

theorem camera0_extrinsic_is_constant_witness:
  "keeps_constant_blocks reset_frames_solver
   \<and> allocated (Calibrator_new True False :: real Calibrator)
   \<and> m_camera (Calibrator_new True False :: real Calibrator) = []
   \<and> no_Clear [[Call_AddFrame example_T_kw, Call_AddObservation 0 0 (Vec3t 1 2 2) (Vec2t 2 2)],
               [Call_Stop]]
   \<and> (\<exists>s'. snd (SolveThread reset_frames_solver
                [[Call_AddFrame example_T_kw, Call_AddObservation 0 0 (Vec3t 1 2 2) (Vec2t 2 2)],
                 [Call_Stop]]
                (snd (AddCamera [4, 2, 1, 1] example_T_kw (Calibrator_new True False))))
              = Returned s'
          \<and> read_block (heap s') (T_ck_data (m_camera s' ! 0)) = Some (Pose example_T_kw)
          \<and> read_block (heap s') (SE3_data (m_T_kw s' ! 0)) = Some (Pose SE3_identity))"
proof -
  let ?schedule = "[[Call_AddFrame example_T_kw, Call_AddObservation 0 0 (Vec3t 1 2 2) (Vec2t 2 2)],
                 [Call_Stop]]"
  let ?s = "snd (AddCamera [4, 2, 1, 1] example_T_kw (Calibrator_new True False :: real Calibrator))"
  have h1: "keeps_constant_blocks reset_frames_solver"
    by (rule keeps_constant_blocks_reset_frames)
  have h2: "allocated (Calibrator_new True False :: real Calibrator)"
    by (rule allocated_Calibrator_new)
  have h3: "m_camera (Calibrator_new True False :: real Calibrator) = []"
    by (simp add: Calibrator_new_def)
  have h4: "no_Clear ?schedule"
    by (simp add: no_Clear_def)
  have r: "\<exists>s'. snd (SolveThread reset_frames_solver ?schedule ?s) = Returned s'
      \<and> read_block (heap s') (SE3_data (m_T_kw s' ! 0)) = Some (Pose SE3_identity)"
    by (simp add: SolveThread_def AddCamera_def AddFrame_def new_object_def Calibrator_new_def
        AddObservation_def AddObservation_locked_def lock_def unlock_def at_int_def Let_def
        SolveThread_body_free BuildProblem_fields reset_frames_solver_def)
  then obtain s' where s': "snd (SolveThread reset_frames_solver ?schedule ?s) = Returned s'"
    and fr: "read_block (heap s') (SE3_data (m_T_kw s' ! 0)) = Some (Pose SE3_identity)"
    by blast
  from camera0_extrinsic_is_constant [OF h1 h2 h3 h4 disjI2, OF s']
  have "read_block (heap s') (T_ck_data (m_camera s' ! 0)) = Some (Pose example_T_kw)"
    by blast
  with s' fr have "\<exists>s'. snd (SolveThread reset_frames_solver ?schedule ?s) = Returned s'
          \<and> read_block (heap s') (T_ck_data (m_camera s' ! 0)) = Some (Pose example_T_kw)
          \<and> read_block (heap s') (SE3_data (m_T_kw s' ! 0)) = Some (Pose SE3_identity)"
    by blast
  then show ?thesis
    using h1 h2 h3 h4 by (intro conjI)
qed

end
